theory Spec2Isabelle
  imports Complex_Main
begin

section \<open>Data model of \<^verbatim>\<open>src/RobustSolver.cpp\<close>\<close>

text \<open>
  The solver of \<^verbatim>\<open>RobustSolver.cpp\<close> is a class with mutable members that calls three
  collaborators: the outlier rejection strategy behind \<^verbatim>\<open>outlier_removal_\<close>, the
  nonlinear optimizers of the gtsam library, and its base class \<^verbatim>\<open>GenericSolver\<close>.
  The members become a record that every operation takes and returns; the collaborators
  become the fields of one record of functions; what an operation prints, writes to a
  file or hands to an optimizer is recorded in a second record, the world, which
  survives when the process is terminated. An operation returns its result (or the
  reason the process stopped) together with the world. \<^verbatim>\<open>saveData\<close>, which only calls
  the serializers of gtsam and of the strategy, is left out.

  A \<^verbatim>\<open>double\<close> is only stored, passed on and printed by this file, so it is a real
  number here; its formatting by \<^verbatim>\<open>operator<<\<close> is not modelled (a printed number
  is a token of a line).
\<close>

type_synonym double = real

text \<open>A variable identifier: a prefix character and an index.\<close>

type_synonym Key = "char \<times> nat"

text \<open>\<^verbatim>\<open>gtsam::Values\<close>, the value assignment, with values of type \<open>'x\<close>.\<close>

type_synonym 'x Values = "Key \<rightharpoonup> 'x"

text \<open>\<^verbatim>\<open>gtsam::NonlinearFactorGraph\<close>: the factors in the order they were appended.\<close>

type_synonym 'f NonlinearFactorGraph = "'f list"

text \<open>
  \<^verbatim>\<open>EdgePtr\<close>, a \<^verbatim>\<open>unique_ptr\<close> that is empty or identifies one removed factor (here
  by the factor itself).
\<close>

type_synonym 'f EdgePtr = "'f option"

text \<open>\<^verbatim>\<open>ObservationId(prefix_1, prefix_2)\<close>.\<close>

type_synonym ObservationId = "char \<times> char"

text \<open>
  The three enumerations of the parameters. A C++ enumeration can hold a value that is
  none of its enumerators (the \<^verbatim>\<open>default\<close> and final \<^verbatim>\<open>else\<close> branches of the
  source exist for it): the last constructor of each datatype stands for such a value.
\<close>

datatype Solver = LM | GN | Solver_unlisted

datatype OutlierRemovalMethod =
  NONE | PCM2D | PCM3D | PCM_Simple2D | PCM_Simple3D | OutlierRemovalMethod_unlisted

datatype Verbosity = UPDATE | QUIET | VERBOSE | Verbosity_unlisted

record RobustSolverParams =
  solver :: Solver
  outlierRemovalMethod :: OutlierRemovalMethod
  specialSymbols :: "char list"
  verbosity :: Verbosity
  pcm_odomThreshold :: double
  pcm_lcThreshold :: double
  pcmDist_transThreshold :: double
  pcmDist_rotThreshold :: double

text \<open>The four strategy classes the constructor can instantiate.\<close>

datatype strategy_class = Pcm2D | Pcm3D | PcmSimple2D | PcmSimple3D

text \<open>
  A strategy object: the class and the three constructor arguments the source passes,
  the flag that \<^verbatim>\<open>setQuiet()\<close> sets, and the strategy's own bookkeeping, of a type
  \<open>'s\<close> this file knows nothing about.
\<close>

record 's OutlierRemoval =
  strategy_class :: strategy_class
  threshold_1 :: double
  threshold_2 :: double
  strategy_symbols :: "char list"
  quiet :: bool
  bookkeeping :: 's

text \<open>\<^verbatim>\<open>Stats\<close>, as \<^verbatim>\<open>update\<close> reads it: seven counters and the consistency errors.\<close>

record Stats =
  lc :: nat
  good_lc :: nat
  odom_consistent_lc :: nat
  multirobot_lc :: nat
  good_multirobot_lc :: nat
  landmark_measurements :: nat
  good_landmark_measurements :: nat
  consistency_error :: "double list"

text \<open>
  The optimizer parameters the source builds. A verbosity of \<open>None\<close> is the library's
  default, left untouched when \<^verbatim>\<open>debug_\<close> is off.
\<close>

record LevenbergMarquardtParams =
  verbosityLM :: "string option"
  diagonalDamping :: bool

record GaussNewtonParams =
  verbosity_GN :: "string option"

text \<open>
  The members of the solver. \<^verbatim>\<open>nfg_\<close>, \<^verbatim>\<open>values_\<close>, \<^verbatim>\<open>solver_type_\<close>,
  \<^verbatim>\<open>special_symbols_\<close> and \<^verbatim>\<open>debug_\<close> are inherited from \<^verbatim>\<open>GenericSolver\<close>;
  a null \<^verbatim>\<open>outlier_removal_\<close> is \<open>None\<close>. The trailing underscore of a member's name
  is written \<open>_m\<close>.
\<close>

record ('f, 'x, 's) RobustSolver_obj =
  nfg_m :: "'f NonlinearFactorGraph"
  values_m :: "'x Values"
  solver_type_m :: Solver
  special_symbols_m :: "char list"
  debug_m :: bool
  outlier_removal_m :: "'s OutlierRemoval option"
  log_m :: bool
  log_path_m :: string

subsection \<open>The world outside the object\<close>

datatype log_level = INFO | WARNING

text \<open>
  A line of a file is the sequence of items streamed into it with \<^verbatim>\<open><<\<close> before
  \<^verbatim>\<open>std::endl\<close>.
\<close>

datatype token = Count nat | Number double | Text string

type_synonym line = "token list"

text \<open>One run of an optimizer of the backend, with the arguments it was given.\<close>

datatype ('f, 'x) optimizer_run =
  LevenbergMarquardt_run "'f NonlinearFactorGraph" "'x Values" LevenbergMarquardtParams
| GaussNewton_run "'f NonlinearFactorGraph" "'x Values" GaussNewtonParams

text \<open>
  \<open>console\<close> holds the diagnostics the solver emits with \<^verbatim>\<open>log<level>(msg)\<close>, in order;
  \<open>files\<close> maps a path to the lines of the file there; \<open>can_open\<close> says of a path
  whether an \<^verbatim>\<open>ofstream\<close> can be opened on it (its directory exists and can be written
  to), which no operation changes; \<open>optimizer_runs\<close> lists the runs of the backend, oldest
  first. What a strategy prints itself is outside the model.
\<close>

record ('f, 'x) world =
  console :: "(log_level \<times> string) list"
  files :: "string \<rightharpoonup> line list"
  can_open :: "string \<Rightarrow> bool"
  optimizer_runs :: "('f, 'x) optimizer_run list"

text \<open>
  How the process can stop inside an operation: \<^verbatim>\<open>exit(EXIT_FAILURE)\<close>, or a call
  through the null \<^verbatim>\<open>outlier_removal_\<close>.
\<close>

datatype abort = Exit_failure | Null_dereference

type_synonym ('a, 'f, 'x) outcome = "(abort + 'a) \<times> ('f, 'x) world"

subsection \<open>The collaborators\<close>

text \<open>
  The code this file calls and does not contain. The strategy's methods take the
  strategy object and what the source passes them: \<^verbatim>\<open>removeOutliers\<close> receives pointers
  to \<^verbatim>\<open>nfg_\<close> and \<^verbatim>\<open>values_\<close> and so returns both; the loop-closure methods receive a
  pointer to \<^verbatim>\<open>nfg_\<close> only. \<open>new_bookkeeping\<close> is what a strategy's constructor sets
  up. \<open>worth_optimizing\<close> is the test at the end of
  \<^verbatim>\<open>GenericSolver::addAndCheckIfOptimize\<close>.
\<close>

record ('f, 'x, 's) collaborators =
  new_bookkeeping :: "strategy_class \<Rightarrow> double \<Rightarrow> double \<Rightarrow> char list \<Rightarrow> 's"
  or_removeOutliers ::
    "'s OutlierRemoval \<Rightarrow> 'f NonlinearFactorGraph \<Rightarrow> 'x Values \<Rightarrow>
     'f NonlinearFactorGraph \<Rightarrow> 'x Values \<Rightarrow>
     bool \<times> 's OutlierRemoval \<times> 'f NonlinearFactorGraph \<times> 'x Values"
  or_removeLastLoopClosure_id ::
    "'s OutlierRemoval \<Rightarrow> ObservationId \<Rightarrow> 'f NonlinearFactorGraph \<Rightarrow>
     'f EdgePtr \<times> 's OutlierRemoval \<times> 'f NonlinearFactorGraph"
  or_removeLastLoopClosure ::
    "'s OutlierRemoval \<Rightarrow> 'f NonlinearFactorGraph \<Rightarrow>
     'f EdgePtr \<times> 's OutlierRemoval \<times> 'f NonlinearFactorGraph"
  or_ignoreLoopClosureWithPrefix ::
    "'s OutlierRemoval \<Rightarrow> char \<Rightarrow> 'f NonlinearFactorGraph \<Rightarrow>
     's OutlierRemoval \<times> 'f NonlinearFactorGraph"
  or_reviveLoopClosureWithPrefix ::
    "'s OutlierRemoval \<Rightarrow> char \<Rightarrow> 'f NonlinearFactorGraph \<Rightarrow>
     's OutlierRemoval \<times> 'f NonlinearFactorGraph"
  or_getIgnoredPrefixes :: "'s OutlierRemoval \<Rightarrow> char list \<times> 's OutlierRemoval"
  or_getRejectionStats :: "'s OutlierRemoval \<Rightarrow> Stats \<times> 's OutlierRemoval"
  LevenbergMarquardtOptimizer ::
    "'f NonlinearFactorGraph \<Rightarrow> 'x Values \<Rightarrow> LevenbergMarquardtParams \<Rightarrow> 'x Values"
  GaussNewtonOptimizer ::
    "'f NonlinearFactorGraph \<Rightarrow> 'x Values \<Rightarrow> GaussNewtonParams \<Rightarrow> 'x Values"
  graph_error :: "'f NonlinearFactorGraph \<Rightarrow> 'x Values \<Rightarrow> double"
  worth_optimizing :: "'f NonlinearFactorGraph \<Rightarrow> 'x Values \<Rightarrow> bool"

section \<open>Helpers of the embedding\<close>

text \<open>\<^verbatim>\<open>log<level>(msg)\<close>.\<close>

definition log_at :: "log_level \<Rightarrow> string \<Rightarrow> ('f, 'x) world \<Rightarrow> ('f, 'x) world" where
  "log_at level msg w = w\<lparr>console := console w @ [(level, msg)]\<rparr>"

text \<open>The lines of the file at a path; a file that does not exist has none.\<close>

definition file_lines :: "('f, 'x) world \<Rightarrow> string \<Rightarrow> line list" where
  "file_lines w path = (case files w path of None \<Rightarrow> [] | Some ls \<Rightarrow> ls)"

text \<open>
  \<^verbatim>\<open>open(path)\<close>, the lines streamed, \<^verbatim>\<open>close()\<close>: the default open mode of an
  \<^verbatim>\<open>ofstream\<close> discards what the file held. The source never tests the stream: when the
  open fails, every \<^verbatim>\<open><<\<close> does nothing and the call goes on, so nothing is written.
\<close>

definition write_file :: "string \<Rightarrow> line list \<Rightarrow> ('f, 'x) world \<Rightarrow> ('f, 'x) world" where
  "write_file path ls w =
     (if can_open w path then w\<lparr>files := (files w)(path \<mapsto> ls)\<rparr> else w)"

text \<open>The same with \<^verbatim>\<open>std::ios::app\<close>: the lines go after what the file holds.\<close>

definition append_file :: "string \<Rightarrow> line list \<Rightarrow> ('f, 'x) world \<Rightarrow> ('f, 'x) world" where
  "append_file path ls w =
     (if can_open w path then w\<lparr>files := (files w)(path \<mapsto> file_lines w path @ ls)\<rparr>
      else w)"

text \<open>An operation that ends with \<^verbatim>\<open>optimize(); return r;\<close>.\<close>

definition returning ::
  "'r \<Rightarrow> ('a, 'f, 'x) outcome \<Rightarrow> ('r \<times> 'a, 'f, 'x) outcome" where
  "returning r out =
     (case out of (Inl a, w) \<Rightarrow> (Inl a, w) | (Inr st, w) \<Rightarrow> (Inr (r, st), w))"

section \<open>The base class and the strategy object\<close>

text \<open>
  Modelled from the spec: the constructor of \<^verbatim>\<open>GenericSolver\<close>, of which src/ holds
  only the call. The graph state is created empty (spec 3, Lifecycle), the solver mode
  is fixed at construction, and the solver's own diagnostics are on until
  \<^verbatim>\<open>setQuiet()\<close> (spec 4.1). The members \<^verbatim>\<open>RobustSolver\<close> adds start as its own
  constructor sets them.
\<close>

definition GenericSolver :: "Solver \<Rightarrow> char list \<Rightarrow> ('f, 'x, 's) RobustSolver_obj" where
  "GenericSolver solvertype special_symbols =
     \<lparr>nfg_m = [], values_m = Map.empty, solver_type_m = solvertype,
      special_symbols_m = special_symbols, debug_m = True,
      outlier_removal_m = None, log_m = False, log_path_m = []\<rparr>"

text \<open>
  Modelled from the spec: \<^verbatim>\<open>GenericSolver::setQuiet\<close>, which suppresses the solver's
  diagnostics (spec 4.1).
\<close>

definition setQuiet :: "('f, 'x, 's) RobustSolver_obj \<Rightarrow> ('f, 'x, 's) RobustSolver_obj" where
  "setQuiet st = st\<lparr>debug_m := False\<rparr>"

text \<open>
  Modelled from the spec: \<^verbatim>\<open>GenericSolver::addAndCheckIfOptimize\<close>. Every factor and
  value of the batch is admitted unconditionally, and the boolean says whether the batch
  is worth optimizing (spec 4.2); the test itself is the collaborators'.
\<close>

definition addAndCheckIfOptimize ::
  "('f, 'x, 's) collaborators \<Rightarrow> 'f NonlinearFactorGraph \<Rightarrow> 'x Values \<Rightarrow>
   ('f, 'x, 's) RobustSolver_obj \<Rightarrow> bool \<times> ('f, 'x, 's) RobustSolver_obj" where
  "addAndCheckIfOptimize env nfg vals st =
     (worth_optimizing env nfg vals,
      st\<lparr>nfg_m := nfg_m st @ nfg, values_m := values_m st ++ vals\<rparr>)"

text \<open>
  Modelled from the spec: \<^verbatim>\<open>GenericSolver::removeLastFactor\<close>. It removes the single
  most recently appended factor of the whole graph and returns it, or returns the empty
  result when there is nothing to remove (spec 4.4).
\<close>

definition removeLastFactor ::
  "('f, 'x, 's) RobustSolver_obj \<Rightarrow> 'f EdgePtr \<times> ('f, 'x, 's) RobustSolver_obj" where
  "removeLastFactor st =
     (case nfg_m st of
        [] \<Rightarrow> (None, st)
      | f # fs \<Rightarrow> (Some (last (f # fs)), st\<lparr>nfg_m := butlast (f # fs)\<rparr>))"

text \<open>
  Modelled from the spec: the constructor of a strategy class and the strategy's
  \<^verbatim>\<open>setQuiet()\<close> (spec 6). A strategy prints its diagnostics until it is set quiet
  (spec 4.1).
\<close>

definition make_strategy ::
  "('f, 'x, 's) collaborators \<Rightarrow> strategy_class \<Rightarrow> double \<Rightarrow> double \<Rightarrow> char list \<Rightarrow>
   's OutlierRemoval" where
  "make_strategy env cls t1 t2 symbols =
     \<lparr>strategy_class = cls, threshold_1 = t1, threshold_2 = t2,
      strategy_symbols = symbols, quiet = False,
      bookkeeping = new_bookkeeping env cls t1 t2 symbols\<rparr>"

definition or_setQuiet :: "'s OutlierRemoval \<Rightarrow> 's OutlierRemoval" where
  "or_setQuiet s = s\<lparr>quiet := True\<rparr>"

section \<open>The operations of \<^verbatim>\<open>RobustSolver.cpp\<close>\<close>

text \<open>
  The constructor (lines 26 to 80). The first switch sets \<^verbatim>\<open>outlier_removal_\<close> or
  stops the process; the second applies the verbosity, where
  \<^verbatim>\<open>if (outlier_removal_) outlier_removal_->setQuiet()\<close> is \<open>map_option or_setQuiet\<close>.
\<close>

definition select_strategy ::
  "('f, 'x, 's) collaborators \<Rightarrow> RobustSolverParams \<Rightarrow> 's OutlierRemoval option option" where
  "select_strategy env params =
     (case outlierRemovalMethod params of
        NONE \<Rightarrow> Some None
      | PCM2D \<Rightarrow>
          Some (Some (make_strategy env Pcm2D (pcm_odomThreshold params)
            (pcm_lcThreshold params) (specialSymbols params)))
      | PCM3D \<Rightarrow>
          Some (Some (make_strategy env Pcm3D (pcm_odomThreshold params)
            (pcm_lcThreshold params) (specialSymbols params)))
      | PCM_Simple2D \<Rightarrow>
          Some (Some (make_strategy env PcmSimple2D (pcmDist_transThreshold params)
            (pcmDist_rotThreshold params) (specialSymbols params)))
      | PCM_Simple3D \<Rightarrow>
          Some (Some (make_strategy env PcmSimple3D (pcmDist_transThreshold params)
            (pcmDist_rotThreshold params) (specialSymbols params)))
      | OutlierRemovalMethod_unlisted \<Rightarrow> None)"

definition RobustSolver ::
  "('f, 'x, 's) collaborators \<Rightarrow> RobustSolverParams \<Rightarrow> ('f, 'x) world \<Rightarrow>
   (('f, 'x, 's) RobustSolver_obj, 'f, 'x) outcome" where
  "RobustSolver env params w =
     (case select_strategy env params of
        None \<Rightarrow> (Inl Exit_failure, log_at WARNING ''Undefined outlier removal method'' w)
      | Some strategy \<Rightarrow>
          (let st = (GenericSolver (solver params) (specialSymbols params))
                      \<lparr>outlier_removal_m := strategy, log_m := False\<rparr>
           in case verbosity params of
                UPDATE \<Rightarrow>
                  (Inr (st\<lparr>outlier_removal_m :=
                          map_option or_setQuiet (outlier_removal_m st)\<rparr>), w)
              | QUIET \<Rightarrow>
                  (Inr (setQuiet (st\<lparr>outlier_removal_m :=
                          map_option or_setQuiet (outlier_removal_m st)\<rparr>)), w)
              | VERBOSE \<Rightarrow> (Inr st, log_at INFO ''Starting RobustSolver.'' w)
              | Verbosity_unlisted \<Rightarrow>
                  (Inr st,
                   log_at WARNING
                     ''Unrecognized verbosity. Automatically setting to UPDATE. '' w)))"

text \<open>\<^verbatim>\<open>optimize()\<close> (lines 82 to 103).\<close>

definition optimize ::
  "('f, 'x, 's) collaborators \<Rightarrow> ('f, 'x, 's) RobustSolver_obj \<Rightarrow> ('f, 'x) world \<Rightarrow>
   (('f, 'x, 's) RobustSolver_obj, 'f, 'x) outcome" where
  "optimize env st w =
     (if solver_type_m st = LM then
        (let params = \<lparr>verbosityLM = (if debug_m st then Some ''SUMMARY'' else None),
                       diagonalDamping = True\<rparr>;
             w1 = (if debug_m st then log_at INFO ''Running LM'' w else w)
         in (Inr (st\<lparr>values_m :=
                    LevenbergMarquardtOptimizer env (nfg_m st) (values_m st) params\<rparr>),
             w1\<lparr>optimizer_runs := optimizer_runs w1 @
                   [LevenbergMarquardt_run (nfg_m st) (values_m st) params]\<rparr>))
      else if solver_type_m st = GN then
        (let params = \<lparr>verbosity_GN = (if debug_m st then Some ''ERROR'' else None)\<rparr>;
             w1 = (if debug_m st then log_at INFO ''Running GN'' w else w)
         in (Inr (st\<lparr>values_m :=
                    GaussNewtonOptimizer env (nfg_m st) (values_m st) params\<rparr>),
             w1\<lparr>optimizer_runs := optimizer_runs w1 @
                   [GaussNewton_run (nfg_m st) (values_m st) params]\<rparr>))
      else (Inl Exit_failure, log_at WARNING ''Unsupported Solver'' w))"

text \<open>
  The first statement of \<^verbatim>\<open>update\<close> and of \<^verbatim>\<open>forceUpdate\<close> (lines 107 to 111 and 119
  to 124): the batch goes to the strategy when there is one, and to
  \<^verbatim>\<open>addAndCheckIfOptimize\<close> otherwise. The boolean is \<^verbatim>\<open>do_optimize\<close>.
\<close>

definition admission ::
  "('f, 'x, 's) collaborators \<Rightarrow> 'f NonlinearFactorGraph \<Rightarrow> 'x Values \<Rightarrow>
   ('f, 'x, 's) RobustSolver_obj \<Rightarrow> bool \<times> ('f, 'x, 's) RobustSolver_obj" where
  "admission env factors vals st =
     (case outlier_removal_m st of
        Some s \<Rightarrow>
          (case or_removeOutliers env s factors vals (nfg_m st) (values_m st) of
             (b, s', g, v) \<Rightarrow>
               (b, st\<lparr>nfg_m := g, values_m := v, outlier_removal_m := Some s'\<rparr>))
      | None \<Rightarrow> addAndCheckIfOptimize env factors vals st)"

text \<open>\<^verbatim>\<open>forceUpdate\<close> (lines 105 to 114): the boolean is dropped.\<close>

definition forceUpdate ::
  "('f, 'x, 's) collaborators \<Rightarrow> 'f NonlinearFactorGraph \<Rightarrow> 'x Values \<Rightarrow>
   ('f, 'x, 's) RobustSolver_obj \<Rightarrow> ('f, 'x) world \<Rightarrow>
   (('f, 'x, 's) RobustSolver_obj, 'f, 'x) outcome" where
  "forceUpdate env nfg vals st w = optimize env (snd (admission env nfg vals st)) w"

text \<open>
  The two lines \<^verbatim>\<open>update\<close> appends when \<^verbatim>\<open>log_\<close> is set (lines 134 to 138 and 143 to
  144): the seven counters and the error, a blank between them; each consistency error
  followed by a blank.
\<close>

definition stats_line :: "Stats \<Rightarrow> double \<Rightarrow> line" where
  "stats_line stats error =
     [Count (lc stats), Text '' '', Count (good_lc stats), Text '' '',
      Count (odom_consistent_lc stats), Text '' '', Count (multirobot_lc stats), Text '' '',
      Count (good_multirobot_lc stats), Text '' '', Count (landmark_measurements stats),
      Text '' '', Count (good_landmark_measurements stats), Text '' '', Number error]"

definition error_line :: "Stats \<Rightarrow> line" where
  "error_line stats = concat (map (\<lambda>e. [Number e, Text '' '']) (consistency_error stats))"

text \<open>
  The block under \<^verbatim>\<open>if (log_)\<close> (lines 127 to 146). Its first statement calls
  \<^verbatim>\<open>getRejectionStats\<close> through \<^verbatim>\<open>outlier_removal_\<close> with no test of the pointer.
\<close>

definition write_log ::
  "('f, 'x, 's) collaborators \<Rightarrow> ('f, 'x, 's) RobustSolver_obj \<Rightarrow> ('f, 'x) world \<Rightarrow>
   (('f, 'x, 's) RobustSolver_obj, 'f, 'x) outcome" where
  "write_log env st w =
     (case outlier_removal_m st of
        None \<Rightarrow> (Inl Null_dereference, w)
      | Some s \<Rightarrow>
          (case or_getRejectionStats env s of
             (stats, s') \<Rightarrow>
               (let error = graph_error env (nfg_m st) (values_m st);
                    log_file = log_path_m st @ ''/log.txt'';
                    w1 = append_file log_file [stats_line stats error] w;
                    error_file = log_path_m st @ ''/error.txt'';
                    w2 = append_file error_file [error_line stats] w1
                in (Inr (st\<lparr>outlier_removal_m := Some s'\<rparr>), w2))))"

text \<open>\<^verbatim>\<open>update\<close> (lines 116 to 148).\<close>

definition update ::
  "('f, 'x, 's) collaborators \<Rightarrow> 'f NonlinearFactorGraph \<Rightarrow> 'x Values \<Rightarrow>
   ('f, 'x, 's) RobustSolver_obj \<Rightarrow> ('f, 'x) world \<Rightarrow>
   (('f, 'x, 's) RobustSolver_obj, 'f, 'x) outcome" where
  "update env factors vals st w =
     (case admission env factors vals st of
        (do_optimize, st1) \<Rightarrow>
          (case (if do_optimize then optimize env st1 w else (Inr st1, w)) of
             (Inl a, w1) \<Rightarrow> (Inl a, w1)
           | (Inr st2, w1) \<Rightarrow> if log_m st2 then write_log env st2 w1 else (Inr st2, w1)))"

text \<open>
  \<^verbatim>\<open>removeLastLoopClosure\<close>, with two prefixes (lines 150 to 162) and with none (lines
  164 to 175). In each, the statements before \<^verbatim>\<open>optimize()\<close> are a definition of
  their own: the removal step.
\<close>

definition detach_last_id ::
  "('f, 'x, 's) collaborators \<Rightarrow> char \<Rightarrow> char \<Rightarrow> ('f, 'x, 's) RobustSolver_obj \<Rightarrow>
   'f EdgePtr \<times> ('f, 'x, 's) RobustSolver_obj" where
  "detach_last_id env prefix_1 prefix_2 st =
     (let id = (prefix_1, prefix_2)
      in case outlier_removal_m st of
           Some s \<Rightarrow>
             (case or_removeLastLoopClosure_id env s id (nfg_m st) of
                (removed_edge, s', g) \<Rightarrow>
                  (removed_edge, st\<lparr>nfg_m := g, outlier_removal_m := Some s'\<rparr>))
         | None \<Rightarrow> removeLastFactor st)"

definition removeLastLoopClosure_id ::
  "('f, 'x, 's) collaborators \<Rightarrow> char \<Rightarrow> char \<Rightarrow> ('f, 'x, 's) RobustSolver_obj \<Rightarrow>
   ('f, 'x) world \<Rightarrow> ('f EdgePtr \<times> ('f, 'x, 's) RobustSolver_obj, 'f, 'x) outcome" where
  "removeLastLoopClosure_id env prefix_1 prefix_2 st w =
     (case detach_last_id env prefix_1 prefix_2 st of
        (removed_edge, st1) \<Rightarrow> returning removed_edge (optimize env st1 w))"

definition detach_last ::
  "('f, 'x, 's) collaborators \<Rightarrow> ('f, 'x, 's) RobustSolver_obj \<Rightarrow>
   'f EdgePtr \<times> ('f, 'x, 's) RobustSolver_obj" where
  "detach_last env st =
     (case outlier_removal_m st of
        Some s \<Rightarrow>
          (case or_removeLastLoopClosure env s (nfg_m st) of
             (removed_edge, s', g) \<Rightarrow>
               (removed_edge, st\<lparr>nfg_m := g, outlier_removal_m := Some s'\<rparr>))
      | None \<Rightarrow> removeLastFactor st)"

definition removeLastLoopClosure ::
  "('f, 'x, 's) collaborators \<Rightarrow> ('f, 'x, 's) RobustSolver_obj \<Rightarrow> ('f, 'x) world \<Rightarrow>
   ('f EdgePtr \<times> ('f, 'x, 's) RobustSolver_obj, 'f, 'x) outcome" where
  "removeLastLoopClosure env st w =
     (case detach_last env st of
        (removed_edge, st1) \<Rightarrow> returning removed_edge (optimize env st1 w))"

text \<open>\<^verbatim>\<open>ignorePrefix\<close> (lines 177 to 188) and \<^verbatim>\<open>revivePrefix\<close> (lines 190 to 201).\<close>

definition ignorePrefix ::
  "('f, 'x, 's) collaborators \<Rightarrow> char \<Rightarrow> ('f, 'x, 's) RobustSolver_obj \<Rightarrow> ('f, 'x) world \<Rightarrow>
   (('f, 'x, 's) RobustSolver_obj, 'f, 'x) outcome" where
  "ignorePrefix env prefix st w =
     (case outlier_removal_m st of
        Some s \<Rightarrow>
          (case or_ignoreLoopClosureWithPrefix env s prefix (nfg_m st) of
             (s', g) \<Rightarrow> optimize env (st\<lparr>nfg_m := g, outlier_removal_m := Some s'\<rparr>) w)
      | None \<Rightarrow>
          optimize env st
            (log_at WARNING
               '''ignorePrefix' currently not implemented for no outlier rejection case'' w))"

definition revivePrefix ::
  "('f, 'x, 's) collaborators \<Rightarrow> char \<Rightarrow> ('f, 'x, 's) RobustSolver_obj \<Rightarrow> ('f, 'x) world \<Rightarrow>
   (('f, 'x, 's) RobustSolver_obj, 'f, 'x) outcome" where
  "revivePrefix env prefix st w =
     (case outlier_removal_m st of
        Some s \<Rightarrow>
          (case or_reviveLoopClosureWithPrefix env s prefix (nfg_m st) of
             (s', g) \<Rightarrow> optimize env (st\<lparr>nfg_m := g, outlier_removal_m := Some s'\<rparr>) w)
      | None \<Rightarrow>
          optimize env st
            (log_at WARNING
               ('''revivePrefix' and 'ignorePrefix' currently not implemented for no '' @
                ''outlier rejection case'') w))"

text \<open>\<^verbatim>\<open>getIgnoredPrefixes\<close> (lines 203 to 213).\<close>

definition getIgnoredPrefixes ::
  "('f, 'x, 's) collaborators \<Rightarrow> ('f, 'x, 's) RobustSolver_obj \<Rightarrow> ('f, 'x) world \<Rightarrow>
   (char list \<times> ('f, 'x, 's) RobustSolver_obj) \<times> ('f, 'x) world" where
  "getIgnoredPrefixes env st w =
     (case outlier_removal_m st of
        Some s \<Rightarrow>
          (case or_getIgnoredPrefixes env s of
             (prefixes, s') \<Rightarrow> ((prefixes, st\<lparr>outlier_removal_m := Some s'\<rparr>), w))
      | None \<Rightarrow>
          (([], st),
           log_at WARNING
             ('''revivePrefix' and 'ignorePrefix' currently not implemented for no '' @
              ''outlier rejection case'') w))"

text \<open>\<^verbatim>\<open>enableLogging\<close> (lines 223 to 241).\<close>

definition log_header :: line where
  "log_header =
     [Text (''#lc #good-lc #odom-consistent-lc #multirobot-lc #good-multirobot-lc '' @
            ''#ldmrk-measurements #good-ldmrk-measurements #error'')]"

definition error_header :: line where
  "error_header = [Text ''#consistency-error'']"

definition enableLogging ::
  "string \<Rightarrow> ('f, 'x, 's) RobustSolver_obj \<Rightarrow> ('f, 'x) world \<Rightarrow>
   ('f, 'x, 's) RobustSolver_obj \<times> ('f, 'x) world" where
  "enableLogging path st w =
     (let st1 = st\<lparr>log_m := True, log_path_m := path\<rparr>;
          log_file = path @ ''/log.txt'';
          w1 = write_file log_file [log_header] w;
          data_file = path @ ''/error.txt'';
          w2 = write_file data_file [error_header] w1
      in (st1, w2))"

section \<open>Notions used to state the properties\<close>

text \<open>
  What \<^verbatim>\<open>optimize()\<close> hands to the backend in a state whose solver mode is supported,
  and the value assignment the backend returns for it.
\<close>

definition optimizer_call :: "('f, 'x, 's) RobustSolver_obj \<Rightarrow> ('f, 'x) optimizer_run" where
  "optimizer_call st =
     (if solver_type_m st = LM then
        LevenbergMarquardt_run (nfg_m st) (values_m st)
          \<lparr>verbosityLM = (if debug_m st then Some ''SUMMARY'' else None),
           diagonalDamping = True\<rparr>
      else
        GaussNewton_run (nfg_m st) (values_m st)
          \<lparr>verbosity_GN = (if debug_m st then Some ''ERROR'' else None)\<rparr>)"

definition optimizer_result ::
  "('f, 'x, 's) collaborators \<Rightarrow> ('f, 'x, 's) RobustSolver_obj \<Rightarrow> 'x Values" where
  "optimizer_result env st =
     (if solver_type_m st = LM then
        LevenbergMarquardtOptimizer env (nfg_m st) (values_m st)
          \<lparr>verbosityLM = (if debug_m st then Some ''SUMMARY'' else None),
           diagonalDamping = True\<rparr>
      else
        GaussNewtonOptimizer env (nfg_m st) (values_m st)
          \<lparr>verbosity_GN = (if debug_m st then Some ''ERROR'' else None)\<rparr>)"

text \<open>The solver modes \<^verbatim>\<open>optimize()\<close> has a branch for.\<close>

definition supported :: "Solver \<Rightarrow> bool" where
  "supported m = (m = LM \<or> m = GN)"

subsection \<open>A concrete set of collaborators\<close>

text \<open>
  An instance on which the theorems below are exhibited: factors are numbers, values are
  integers, and the strategy keeps the list of the factors it admitted. It admits every
  factor and asks for an optimization when the batch has a factor; it removes the factor
  it admitted last; it counts what it admitted. Levenberg-Marquardt sets every value to
  the number of factors, Gauss-Newton leaves the values as they are.
\<close>

definition demo_collaborators :: "(nat, int, nat list) collaborators" where
  "demo_collaborators =
     \<lparr>new_bookkeeping = (\<lambda>cls t1 t2 symbols. []),
      or_removeOutliers = (\<lambda>s factors vals g v.
        (factors \<noteq> [], s\<lparr>bookkeeping := bookkeeping s @ factors\<rparr>, g @ factors, v ++ vals)),
      or_removeLastLoopClosure_id = (\<lambda>s id g.
        (case rev (bookkeeping s) of
           [] \<Rightarrow> (None, s, g)
         | f # fs \<Rightarrow> (Some f, s\<lparr>bookkeeping := rev fs\<rparr>, remove1 f g))),
      or_removeLastLoopClosure = (\<lambda>s g.
        (case rev (bookkeeping s) of
           [] \<Rightarrow> (None, s, g)
         | f # fs \<Rightarrow> (Some f, s\<lparr>bookkeeping := rev fs\<rparr>, remove1 f g))),
      or_ignoreLoopClosureWithPrefix = (\<lambda>s prefix g. (s, g)),
      or_reviveLoopClosureWithPrefix = (\<lambda>s prefix g. (s, g)),
      or_getIgnoredPrefixes = (\<lambda>s. ([], s)),
      or_getRejectionStats = (\<lambda>s.
        (\<lparr>lc = length (bookkeeping s), good_lc = length (bookkeeping s),
          odom_consistent_lc = 0, multirobot_lc = 0, good_multirobot_lc = 0,
          landmark_measurements = 0, good_landmark_measurements = 0,
          consistency_error = [1 / 2]\<rparr>, s)),
      LevenbergMarquardtOptimizer = (\<lambda>g v params. map_option (\<lambda>x. int (length g)) \<circ> v),
      GaussNewtonOptimizer = (\<lambda>g v params. v),
      graph_error = (\<lambda>g v. real (length g)),
      worth_optimizing = (\<lambda>factors vals. factors \<noteq> [])\<rparr>"

text \<open>
  Two worlds with an empty console, no file and no run of the backend: one where every
  path can be opened, and one where none can (the log directory does not exist).
\<close>

definition demo_world :: "(nat, int) world" where
  "demo_world =
     \<lparr>console = [], files = Map.empty, can_open = (\<lambda>path. True), optimizer_runs = []\<rparr>"


definition demo_params :: "OutlierRemovalMethod \<Rightarrow> Verbosity \<Rightarrow> RobustSolverParams" where
  "demo_params method verb =
     \<lparr>solver = LM, outlierRemovalMethod = method, specialSymbols = ''l'',
      verbosity = verb, pcm_odomThreshold = 3, pcm_lcThreshold = 3,
      pcmDist_transThreshold = 1, pcmDist_rotThreshold = 1\<rparr>"

text \<open>
  Two solvers as the constructor leaves them for \<open>demo_params\<close> and verbosity
  \<^verbatim>\<open>UPDATE\<close>: with no strategy, and with a \<^verbatim>\<open>Pcm3D\<close> strategy.
\<close>

definition demo_plain :: "(nat, int, nat list) RobustSolver_obj" where
  "demo_plain = GenericSolver LM ''l''"

definition demo_robust :: "(nat, int, nat list) RobustSolver_obj" where
  "demo_robust =
     (GenericSolver LM ''l'')
       \<lparr>outlier_removal_m :=
          Some (or_setQuiet (make_strategy demo_collaborators Pcm3D 3 3 ''l''))\<rparr>"

section \<open>Lemmas on the parts\<close>

lemma optimize_fst:
  "supported (solver_type_m st) \<Longrightarrow>
   fst (optimize env st w) = Inr (st\<lparr>values_m := optimizer_result env st\<rparr>)"
  by (auto simp: optimize_def optimizer_result_def supported_def Let_def)

lemma optimize_runs:
  "supported (solver_type_m st) \<Longrightarrow>
   optimizer_runs (snd (optimize env st w)) = optimizer_runs w @ [optimizer_call st]"
  by (auto simp: optimize_def optimizer_call_def supported_def Let_def log_at_def)

lemma optimize_files: "files (snd (optimize env st w)) = files w"
  by (simp add: optimize_def Let_def log_at_def)

lemma optimize_unsupported:
  "\<not> supported (solver_type_m st) \<Longrightarrow>
   optimize env st w = (Inl Exit_failure, log_at WARNING ''Unsupported Solver'' w)"
  by (simp add: optimize_def supported_def)

lemma admission_frame:
  "solver_type_m (snd (admission env factors vals st)) = solver_type_m st"
  "debug_m (snd (admission env factors vals st)) = debug_m st"
  "log_m (snd (admission env factors vals st)) = log_m st"
  "log_path_m (snd (admission env factors vals st)) = log_path_m st"
  "(outlier_removal_m (snd (admission env factors vals st)) = None) =
   (outlier_removal_m st = None)"
  by (simp_all add: admission_def addAndCheckIfOptimize_def split: option.splits prod.splits)

lemma optimize_supported:
  assumes "supported (solver_type_m st)"
  obtains w1 where "optimize env st w = (Inr (st\<lparr>values_m := optimizer_result env st\<rparr>), w1)"
    and "optimizer_runs w1 = optimizer_runs w @ [optimizer_call st]"
    and "files w1 = files w"
proof -
  have "optimize env st w = (fst (optimize env st w), snd (optimize env st w))"
    by simp
  with optimize_fst [OF assms, of env w] optimize_runs [OF assms, of env w]
    optimize_files [of env st w] that
  show thesis by metis
qed

lemma write_log_frame:
  "optimizer_runs (snd (write_log env st w)) = optimizer_runs w"
  "fst (write_log env st w) = Inr st' \<Longrightarrow> nfg_m st' = nfg_m st \<and> values_m st' = values_m st"
  "outlier_removal_m st \<noteq> None \<Longrightarrow> \<exists>st'. fst (write_log env st w) = Inr st'"
  by (auto simp: write_log_def Let_def append_file_def split: option.splits prod.splits)

lemma update_unfold:
  "update env factors vals st w =
     (case (if fst (admission env factors vals st)
            then optimize env (snd (admission env factors vals st)) w
            else (Inr (snd (admission env factors vals st)), w)) of
        (Inl a, w1) \<Rightarrow> (Inl a, w1)
      | (Inr st2, w1) \<Rightarrow> if log_m st2 then write_log env st2 w1 else (Inr st2, w1))"
  by (simp add: update_def split: prod.splits)

lemma update_skip:
  assumes "\<not> fst (admission env factors vals st)"
  shows "update env factors vals st w =
     (if log_m st then write_log env (snd (admission env factors vals st)) w
      else (Inr (snd (admission env factors vals st)), w))"
  using assms by (simp add: update_unfold admission_frame)

lemma update_run:
  assumes "fst (admission env factors vals st)" and "supported (solver_type_m st)"
  obtains w1 where
    "update env factors vals st w =
       (if log_m st
        then write_log env ((snd (admission env factors vals st))
               \<lparr>values_m := optimizer_result env (snd (admission env factors vals st))\<rparr>) w1
        else (Inr ((snd (admission env factors vals st))
               \<lparr>values_m := optimizer_result env (snd (admission env factors vals st))\<rparr>), w1))"
    and "optimizer_runs w1 = optimizer_runs w @ [optimizer_call (snd (admission env factors vals st))]"
    and "files w1 = files w"
proof -
  let ?st1 = "snd (admission env factors vals st)"
  have "supported (solver_type_m ?st1)"
    using assms(2) by (simp add: admission_frame)
  then obtain w1 where o: "optimize env ?st1 w = (Inr (?st1\<lparr>values_m := optimizer_result env ?st1\<rparr>), w1)"
    and r: "optimizer_runs w1 = optimizer_runs w @ [optimizer_call ?st1]"
    and f: "files w1 = files w"
    by (rule optimize_supported)
  from o assms(1) have "update env factors vals st w =
       (if log_m st
        then write_log env (?st1\<lparr>values_m := optimizer_result env ?st1\<rparr>) w1
        else (Inr (?st1\<lparr>values_m := optimizer_result env ?st1\<rparr>), w1))"
    by (simp add: update_unfold admission_frame)
  with r f that show thesis by blast
qed

lemma update_exit:
  assumes "fst (admission env factors vals st)" and "\<not> supported (solver_type_m st)"
  shows "update env factors vals st w = (Inl Exit_failure, log_at WARNING ''Unsupported Solver'' w)"
  using assms by (simp add: update_unfold admission_frame optimize_unsupported)

lemma returning_optimize:
  "supported (solver_type_m st) \<Longrightarrow>
   fst (returning r (optimize env st w)) = Inr (r, st\<lparr>values_m := optimizer_result env st\<rparr>)"
  "supported (solver_type_m st) \<Longrightarrow>
   optimizer_runs (snd (returning r (optimize env st w))) =
     optimizer_runs w @ [optimizer_call st]"
  by (auto simp: returning_def optimize_def optimizer_result_def optimizer_call_def
      supported_def Let_def log_at_def)

lemma removeLastFactor_snoc: "nfg_m st = g @ [f] \<Longrightarrow> removeLastFactor st = (Some f, st\<lparr>nfg_m := g\<rparr>)"
  by (cases g) (simp_all add: removeLastFactor_def)

lemma removeLastFactor_empty: "nfg_m st = [] \<Longrightarrow> removeLastFactor st = (None, st)"
  by (simp add: removeLastFactor_def)

lemma detach_frame:
  "solver_type_m (snd (detach_last_id env p1 p2 st)) = solver_type_m st"
  "solver_type_m (snd (detach_last env st)) = solver_type_m st"
  "values_m (snd (detach_last_id env p1 p2 st)) = values_m st"
  "values_m (snd (detach_last env st)) = values_m st"
  "debug_m (snd (detach_last_id env p1 p2 st)) = debug_m st"
  "debug_m (snd (detach_last env st)) = debug_m st"
  by (simp_all add: detach_last_id_def detach_last_def removeLastFactor_def Let_def
      split: option.splits prod.splits list.splits)

lemma removeLastLoopClosure_unfold:
  "removeLastLoopClosure_id env prefix_1 prefix_2 st w =
     returning (fst (detach_last_id env prefix_1 prefix_2 st))
       (optimize env (snd (detach_last_id env prefix_1 prefix_2 st)) w)"
  "removeLastLoopClosure env st w =
     returning (fst (detach_last env st)) (optimize env (snd (detach_last env st)) w)"
  by (simp_all add: removeLastLoopClosure_id_def removeLastLoopClosure_def split: prod.splits)

lemma optimize_console:
  "\<exists>extra. console (snd (optimize env st w)) = console w @ extra"
  by (simp add: optimize_def Let_def log_at_def)






section \<open>The claims\<close>

text \<open>
  Claim C1, which the code does not meet. The claim asks that \<^verbatim>\<open>update\<close>, called with
  logging enabled and no strategy, skip the log lines and complete. In the code the block
  under \<^verbatim>\<open>if (log_)\<close> starts by calling \<^verbatim>\<open>getRejectionStats\<close> through the null
  \<^verbatim>\<open>outlier_removal_\<close>: every such call ends in that dereference (or earlier, in the
  exit of \<^verbatim>\<open>optimize()\<close> on an unsupported solver mode), no call completes, and no line
  is written.
\<close>

theorem update_logging_without_strategy_aborts:
  assumes "log_m st" and "outlier_removal_m st = None"
  shows "fst (update env factors vals st w) =
           Inl (if worth_optimizing env factors vals \<and> \<not> supported (solver_type_m st)
                then Exit_failure else Null_dereference) \<and>
         files (snd (update env factors vals st w)) = files w"
proof (cases "worth_optimizing env factors vals")
  case False
  with assms show ?thesis
    by (simp add: update_def admission_def addAndCheckIfOptimize_def write_log_def)
next
  case True
  show ?thesis
  proof (cases "supported (solver_type_m st)")
    case True
    with assms \<open>worth_optimizing env factors vals\<close> show ?thesis
      by (auto simp: update_def admission_def addAndCheckIfOptimize_def write_log_def
          optimize_def supported_def Let_def log_at_def)
  next
    case False
    with assms \<open>worth_optimizing env factors vals\<close> show ?thesis
      by (simp add: update_def admission_def addAndCheckIfOptimize_def optimize_unsupported
          log_at_def)
  qed
qed

theorem update_logging_without_strategy_aborts_witness:
  "log_m (fst (enableLogging ''out'' demo_plain demo_world)) \<and>
   outlier_removal_m (fst (enableLogging ''out'' demo_plain demo_world)) = None \<and>
   fst (update demo_collaborators [7] Map.empty
          (fst (enableLogging ''out'' demo_plain demo_world))
          (snd (enableLogging ''out'' demo_plain demo_world))) = Inl Null_dereference"
proof -
  let ?st = "fst (enableLogging ''out'' demo_plain demo_world)"
  have a: "log_m ?st"
    by (simp add: enableLogging_def Let_def)
  have b: "outlier_removal_m ?st = None"
    by (simp add: enableLogging_def Let_def demo_plain_def GenericSolver_def)
  have c: "supported (solver_type_m ?st)"
    by (simp add: enableLogging_def Let_def demo_plain_def GenericSolver_def supported_def)
  from update_logging_without_strategy_aborts [OF a b, of demo_collaborators "[7]" Map.empty
      "snd (enableLogging ''out'' demo_plain demo_world)"] a b c
  show ?thesis by simp
qed

text \<open>
  Claim C2. In \<^verbatim>\<open>update\<close>, a configured strategy receives the batch through
  \<^verbatim>\<open>removeOutliers\<close> and its boolean is \<^verbatim>\<open>do_optimize\<close>; with no strategy the boolean
  of \<^verbatim>\<open>addAndCheckIfOptimize\<close> is. On a supported solver mode the backend is run exactly
  once when the boolean is true and not at all when it is false (a false boolean never
  leads to a run, whatever the mode). Whenever \<^verbatim>\<open>update\<close> returns, the factors are those
  left by the admission, and the value assignment is the backend's result when the
  boolean was true and the admission's values otherwise. \<^verbatim>\<open>update\<close> does return on a
  supported solver mode unless logging is on with no strategy.
\<close>

theorem update_optimizes_iff_requested:
  "(\<forall>s. outlier_removal_m st = Some s \<longrightarrow>
      (\<exists>b s' g v.
         or_removeOutliers env s factors vals (nfg_m st) (values_m st) = (b, s', g, v) \<and>
         admission env factors vals st =
           (b, st\<lparr>nfg_m := g, values_m := v, outlier_removal_m := Some s'\<rparr>))) \<and>
   (outlier_removal_m st = None \<longrightarrow>
      admission env factors vals st = addAndCheckIfOptimize env factors vals st) \<and>
   (supported (solver_type_m st) \<longrightarrow>
      optimizer_runs (snd (update env factors vals st w)) =
        optimizer_runs w @
          (if fst (admission env factors vals st)
           then [optimizer_call (snd (admission env factors vals st))] else [])) \<and>
   (\<not> fst (admission env factors vals st) \<longrightarrow>
      optimizer_runs (snd (update env factors vals st w)) = optimizer_runs w) \<and>
   (\<forall>st'. fst (update env factors vals st w) = Inr st' \<longrightarrow>
      nfg_m st' = nfg_m (snd (admission env factors vals st)) \<and>
      values_m st' =
        (if fst (admission env factors vals st)
         then optimizer_result env (snd (admission env factors vals st))
         else values_m (snd (admission env factors vals st)))) \<and>
   (supported (solver_type_m st) \<and> (log_m st \<longrightarrow> outlier_removal_m st \<noteq> None) \<longrightarrow>
      (\<exists>st'. fst (update env factors vals st w) = Inr st'))"
proof -
  let ?adm = "admission env factors vals st"
  let ?st1 = "snd ?adm"
  let ?out = "update env factors vals st w"
  have A: "\<forall>s. outlier_removal_m st = Some s \<longrightarrow>
      (\<exists>b s' g v.
         or_removeOutliers env s factors vals (nfg_m st) (values_m st) = (b, s', g, v) \<and>
         ?adm = (b, st\<lparr>nfg_m := g, values_m := v, outlier_removal_m := Some s'\<rparr>))"
    by (auto simp: admission_def split: prod.splits)
  have B: "outlier_removal_m st = None \<longrightarrow> ?adm = addAndCheckIfOptimize env factors vals st"
    by (simp add: admission_def)
  have D: "\<not> fst ?adm \<longrightarrow> optimizer_runs (snd ?out) = optimizer_runs w"
    by (simp add: update_skip write_log_frame)
  have C: "supported (solver_type_m st) \<longrightarrow>
      optimizer_runs (snd ?out) =
        optimizer_runs w @ (if fst ?adm then [optimizer_call ?st1] else [])"
  proof (cases "fst ?adm")
    case False
    with D show ?thesis by simp
  next
    case True
    show ?thesis
    proof
      assume "supported (solver_type_m st)"
      with True obtain w1 where
        u: "?out = (if log_m st
              then write_log env (?st1\<lparr>values_m := optimizer_result env ?st1\<rparr>) w1
              else (Inr (?st1\<lparr>values_m := optimizer_result env ?st1\<rparr>), w1))"
        and r: "optimizer_runs w1 = optimizer_runs w @ [optimizer_call ?st1]"
        by (rule update_run)
      from u r True show "optimizer_runs (snd ?out) =
          optimizer_runs w @ (if fst ?adm then [optimizer_call ?st1] else [])"
        by (simp add: write_log_frame)
    qed
  qed
  have E: "\<forall>st'. fst ?out = Inr st' \<longrightarrow>
      nfg_m st' = nfg_m ?st1 \<and>
      values_m st' = (if fst ?adm then optimizer_result env ?st1 else values_m ?st1)"
  proof (intro allI impI)
    fix st'
    assume r: "fst ?out = Inr st'"
    show "nfg_m st' = nfg_m ?st1 \<and>
      values_m st' = (if fst ?adm then optimizer_result env ?st1 else values_m ?st1)"
    proof (cases "fst ?adm")
      case False
      with r show ?thesis
        by (auto simp: update_skip dest: write_log_frame(2) split: if_splits)
    next
      case True
      show ?thesis
      proof (cases "supported (solver_type_m st)")
        case False
        with True r show ?thesis by (simp add: update_exit)
      next
        case s: True
        with True obtain w1 where
          u: "?out = (if log_m st
              then write_log env (?st1\<lparr>values_m := optimizer_result env ?st1\<rparr>) w1
              else (Inr (?st1\<lparr>values_m := optimizer_result env ?st1\<rparr>), w1))"
          by (rule update_run)
        with r True show ?thesis
          by (auto dest: write_log_frame(2) split: if_splits)
      qed
    qed
  qed
  have F: "supported (solver_type_m st) \<and> (log_m st \<longrightarrow> outlier_removal_m st \<noteq> None) \<longrightarrow>
      (\<exists>st'. fst ?out = Inr st')"
  proof
    assume h: "supported (solver_type_m st) \<and> (log_m st \<longrightarrow> outlier_removal_m st \<noteq> None)"
    show "\<exists>st'. fst ?out = Inr st'"
    proof (cases "fst ?adm")
      case False
      with h show ?thesis
        by (simp add: update_skip write_log_frame(3) admission_frame)
    next
      case True
      from h have "supported (solver_type_m st)" ..
      with True obtain w1 where
        u: "?out = (if log_m st
              then write_log env (?st1\<lparr>values_m := optimizer_result env ?st1\<rparr>) w1
              else (Inr (?st1\<lparr>values_m := optimizer_result env ?st1\<rparr>), w1))"
        by (rule update_run)
      with h show ?thesis
        by (simp add: write_log_frame(3) admission_frame)
    qed
  qed
  from A B C D E F show ?thesis by (intro conjI)
qed

theorem update_optimizes_iff_requested_witness:
  "outlier_removal_m demo_robust =
     Some (or_setQuiet (make_strategy demo_collaborators Pcm3D 3 3 ''l'')) \<and>
   supported (solver_type_m demo_robust) \<and>
   fst (admission demo_collaborators [7] Map.empty demo_robust) \<and>
   optimizer_runs (snd (update demo_collaborators [7] Map.empty demo_robust demo_world)) =
     [optimizer_call (snd (admission demo_collaborators [7] Map.empty demo_robust))] \<and>
   (\<exists>st'. fst (update demo_collaborators [7] Map.empty demo_robust demo_world) = Inr st' \<and>
      nfg_m st' = [7] \<and>
      values_m st' =
        optimizer_result demo_collaborators
          (snd (admission demo_collaborators [7] Map.empty demo_robust))) \<and>
   outlier_removal_m demo_plain = None \<and>
   \<not> fst (admission demo_collaborators [] Map.empty demo_plain) \<and>
   admission demo_collaborators [] Map.empty demo_plain =
     addAndCheckIfOptimize demo_collaborators [] Map.empty demo_plain \<and>
   optimizer_runs (snd (update demo_collaborators [] Map.empty demo_plain demo_world)) = []"
proof -
  let ?adm = "admission demo_collaborators [7] Map.empty demo_robust"
  let ?out = "update demo_collaborators [7] Map.empty demo_robust demo_world"
  note T = update_optimizes_iff_requested [where env = demo_collaborators and factors = "[7]"
      and vals = Map.empty and st = demo_robust and w = demo_world]
  note P = update_optimizes_iff_requested [where env = demo_collaborators and factors = "[]"
      and vals = Map.empty and st = demo_plain and w = demo_world]
  have a: "outlier_removal_m demo_robust =
      Some (or_setQuiet (make_strategy demo_collaborators Pcm3D 3 3 ''l''))"
    by (simp add: demo_robust_def)
  have b: "supported (solver_type_m demo_robust)"
    by (simp add: demo_robust_def GenericSolver_def supported_def)
  have c: "fst ?adm"
    by (simp add: admission_def demo_robust_def demo_collaborators_def)
  have g: "nfg_m (snd ?adm) = [7]"
    by (simp add: admission_def demo_robust_def demo_collaborators_def GenericSolver_def)
  have l: "\<not> log_m demo_robust"
    by (simp add: demo_robust_def GenericSolver_def)
  from T b c have d: "optimizer_runs (snd ?out) = optimizer_runs demo_world @ [optimizer_call (snd ?adm)]"
    by simp
  from T b l obtain st' where r: "fst ?out = Inr st'"
    by blast
  with T c have e: "nfg_m st' = nfg_m (snd ?adm) \<and>
      values_m st' = optimizer_result demo_collaborators (snd ?adm)"
    by simp
  have p: "outlier_removal_m demo_plain = None"
    by (simp add: demo_plain_def GenericSolver_def)
  have q: "\<not> fst (admission demo_collaborators [] Map.empty demo_plain)"
    by (simp add: admission_def addAndCheckIfOptimize_def demo_plain_def GenericSolver_def
        demo_collaborators_def)
  from P p have s: "admission demo_collaborators [] Map.empty demo_plain =
      addAndCheckIfOptimize demo_collaborators [] Map.empty demo_plain"
    by simp
  from P q have t: "optimizer_runs (snd (update demo_collaborators [] Map.empty demo_plain
      demo_world)) = optimizer_runs demo_world"
    by simp
  have w0: "optimizer_runs demo_world = []"
    by (simp add: demo_world_def)
  from a b c d r e g p q s t w0 show ?thesis
    by auto
qed

text \<open>
  Claim C3. \<^verbatim>\<open>forceUpdate\<close> admits the batch as \<^verbatim>\<open>update\<close> does (the strategy's
  \<^verbatim>\<open>removeOutliers\<close> when there is a strategy, every factor and value appended
  otherwise), then calls \<^verbatim>\<open>optimize()\<close> whatever the boolean of the admission was:
  on a supported solver mode the backend runs exactly once and its result is the new
  value assignment. It writes to no file, also when logging is enabled. With logging off,
  \<^verbatim>\<open>update\<close> differs only in calling \<^verbatim>\<open>optimize()\<close> when the boolean is true.
\<close>

theorem forceUpdate_always_optimizes:
  "forceUpdate env nfg vals st w = optimize env (snd (admission env nfg vals st)) w \<and>
   (\<forall>s. outlier_removal_m st = Some s \<longrightarrow>
      (\<exists>b s' g v.
         or_removeOutliers env s nfg vals (nfg_m st) (values_m st) = (b, s', g, v) \<and>
         snd (admission env nfg vals st) =
           st\<lparr>nfg_m := g, values_m := v, outlier_removal_m := Some s'\<rparr>)) \<and>
   (outlier_removal_m st = None \<longrightarrow>
      snd (admission env nfg vals st) =
        st\<lparr>nfg_m := nfg_m st @ nfg, values_m := values_m st ++ vals\<rparr>) \<and>
   (\<not> log_m st \<longrightarrow>
      update env nfg vals st w =
        (if fst (admission env nfg vals st)
         then optimize env (snd (admission env nfg vals st)) w
         else (Inr (snd (admission env nfg vals st)), w))) \<and>
   (supported (solver_type_m st) \<longrightarrow>
      fst (forceUpdate env nfg vals st w) =
        Inr ((snd (admission env nfg vals st))
               \<lparr>values_m := optimizer_result env (snd (admission env nfg vals st))\<rparr>) \<and>
      optimizer_runs (snd (forceUpdate env nfg vals st w)) =
        optimizer_runs w @ [optimizer_call (snd (admission env nfg vals st))]) \<and>
   files (snd (forceUpdate env nfg vals st w)) = files w"
proof -
  let ?st1 = "snd (admission env nfg vals st)"
  have A: "forceUpdate env nfg vals st w = optimize env ?st1 w"
    by (simp add: forceUpdate_def)
  have B: "\<forall>s. outlier_removal_m st = Some s \<longrightarrow>
      (\<exists>b s' g v.
         or_removeOutliers env s nfg vals (nfg_m st) (values_m st) = (b, s', g, v) \<and>
         ?st1 = st\<lparr>nfg_m := g, values_m := v, outlier_removal_m := Some s'\<rparr>)"
    by (auto simp: admission_def split: prod.splits)
  have C: "outlier_removal_m st = None \<longrightarrow>
      ?st1 = st\<lparr>nfg_m := nfg_m st @ nfg, values_m := values_m st ++ vals\<rparr>"
    by (simp add: admission_def addAndCheckIfOptimize_def)
  have D: "\<not> log_m st \<longrightarrow>
      update env nfg vals st w =
        (if fst (admission env nfg vals st) then optimize env ?st1 w else (Inr ?st1, w))"
  proof
    assume n: "\<not> log_m st"
    have "fst (optimize env ?st1 w) = Inr st2 \<Longrightarrow> \<not> log_m st2" for st2
      using n by (auto simp: optimize_def Let_def admission_frame split: if_splits)
    then have "(case optimize env ?st1 w of
          (Inl a, w1) \<Rightarrow> (Inl a, w1)
        | (Inr st2, w1) \<Rightarrow> if log_m st2 then write_log env st2 w1 else (Inr st2, w1)) =
        optimize env ?st1 w"
      by (cases "optimize env ?st1 w") (auto split: sum.splits)
    with n show "update env nfg vals st w =
        (if fst (admission env nfg vals st) then optimize env ?st1 w else (Inr ?st1, w))"
      by (simp add: update_unfold admission_frame)
  qed
  have E: "supported (solver_type_m st) \<longrightarrow>
      fst (forceUpdate env nfg vals st w) = Inr (?st1\<lparr>values_m := optimizer_result env ?st1\<rparr>) \<and>
      optimizer_runs (snd (forceUpdate env nfg vals st w)) =
        optimizer_runs w @ [optimizer_call ?st1]"
    by (simp add: forceUpdate_def optimize_fst optimize_runs admission_frame)
  have F: "files (snd (forceUpdate env nfg vals st w)) = files w"
    by (simp add: forceUpdate_def optimize_files)
  from A B C D E F show ?thesis by (intro conjI)
qed

theorem forceUpdate_always_optimizes_witness:
  "outlier_removal_m (fst (enableLogging ''out'' demo_robust demo_world)) =
     Some (or_setQuiet (make_strategy demo_collaborators Pcm3D 3 3 ''l'')) \<and>
   supported (solver_type_m (fst (enableLogging ''out'' demo_robust demo_world))) \<and>
   log_m (fst (enableLogging ''out'' demo_robust demo_world)) \<and>
   \<not> fst (admission demo_collaborators [] Map.empty
            (fst (enableLogging ''out'' demo_robust demo_world))) \<and>
   length (optimizer_runs (snd (forceUpdate demo_collaborators [] Map.empty
            (fst (enableLogging ''out'' demo_robust demo_world))
            (snd (enableLogging ''out'' demo_robust demo_world))))) = 1 \<and>
   files (snd (forceUpdate demo_collaborators [] Map.empty
            (fst (enableLogging ''out'' demo_robust demo_world))
            (snd (enableLogging ''out'' demo_robust demo_world)))) =
     files (snd (enableLogging ''out'' demo_robust demo_world)) \<and>
   outlier_removal_m demo_plain = None \<and> \<not> log_m demo_plain \<and>
   nfg_m (snd (admission demo_collaborators [7] Map.empty demo_plain)) = [7] \<and>
   update demo_collaborators [7] Map.empty demo_plain demo_world =
     forceUpdate demo_collaborators [7] Map.empty demo_plain demo_world"
proof -
  let ?st = "fst (enableLogging ''out'' demo_robust demo_world)"
  let ?w = "snd (enableLogging ''out'' demo_robust demo_world)"
  note T = forceUpdate_always_optimizes [where env = demo_collaborators and nfg = "[]"
      and vals = Map.empty and st = ?st and w = ?w]
  note P = forceUpdate_always_optimizes [where env = demo_collaborators and nfg = "[7]"
      and vals = Map.empty and st = demo_plain and w = demo_world]
  have a: "outlier_removal_m ?st =
      Some (or_setQuiet (make_strategy demo_collaborators Pcm3D 3 3 ''l''))"
    by (simp add: enableLogging_def Let_def demo_robust_def)
  have b: "supported (solver_type_m ?st)"
    by (simp add: enableLogging_def Let_def demo_robust_def GenericSolver_def supported_def)
  have c: "log_m ?st"
    by (simp add: enableLogging_def Let_def)
  have d: "\<not> fst (admission demo_collaborators [] Map.empty ?st)"
    by (simp add: admission_def a demo_collaborators_def)
  from T b have e: "optimizer_runs (snd (forceUpdate demo_collaborators [] Map.empty ?st ?w)) =
      optimizer_runs ?w @ [optimizer_call (snd (admission demo_collaborators [] Map.empty ?st))]"
    by blast
  have f: "optimizer_runs ?w = []"
    by (simp add: enableLogging_def Let_def write_file_def demo_world_def)
  from T have g: "files (snd (forceUpdate demo_collaborators [] Map.empty ?st ?w)) = files ?w"
    by blast
  have p: "outlier_removal_m demo_plain = None"
    by (simp add: demo_plain_def GenericSolver_def)
  have q: "\<not> log_m demo_plain"
    by (simp add: demo_plain_def GenericSolver_def)
  from P p have r: "snd (admission demo_collaborators [7] Map.empty demo_plain) =
      demo_plain\<lparr>nfg_m := nfg_m demo_plain @ [7], values_m := values_m demo_plain ++ Map.empty\<rparr>"
    by blast
  then have r': "nfg_m (snd (admission demo_collaborators [7] Map.empty demo_plain)) = [7]"
    by (simp add: demo_plain_def GenericSolver_def)
  have s: "fst (admission demo_collaborators [7] Map.empty demo_plain)"
    by (simp add: admission_def p addAndCheckIfOptimize_def demo_collaborators_def)
  from P q have "update demo_collaborators [7] Map.empty demo_plain demo_world =
      (if fst (admission demo_collaborators [7] Map.empty demo_plain)
       then optimize demo_collaborators
              (snd (admission demo_collaborators [7] Map.empty demo_plain)) demo_world
       else (Inr (snd (admission demo_collaborators [7] Map.empty demo_plain)), demo_world))"
    by blast
  with s have t: "update demo_collaborators [7] Map.empty demo_plain demo_world =
      forceUpdate demo_collaborators [7] Map.empty demo_plain demo_world"
    by (simp add: forceUpdate_def)
  from a b c d e f g p q r' t show ?thesis
    by simp
qed

text \<open>
  Claim C4. \<^verbatim>\<open>removeLastLoopClosure\<close>, with two prefixes or with none: when a strategy
  is configured the removal is the strategy's \<^verbatim>\<open>removeLastLoopClosure\<close> (given the
  observation id in the scoped form), and the solver returns what the strategy returned;
  with no strategy the last factor of the whole graph is removed and returned, whatever
  the prefixes, and on an empty graph nothing is removed and the empty result is
  returned. In every case \<^verbatim>\<open>optimize()\<close> is called on the graph left by the removal
  before the result is returned: on a supported solver mode the backend runs exactly once
  and the call returns the removed edge with the backend's values.
\<close>

theorem removeLastLoopClosure_delegates_or_pops:
  "(\<forall>s. outlier_removal_m st = Some s \<longrightarrow>
      (\<exists>e s' g.
         or_removeLastLoopClosure_id env s (prefix_1, prefix_2) (nfg_m st) = (e, s', g) \<and>
         removeLastLoopClosure_id env prefix_1 prefix_2 st w =
           returning e (optimize env (st\<lparr>nfg_m := g, outlier_removal_m := Some s'\<rparr>) w)) \<and>
      (\<exists>e s' g.
         or_removeLastLoopClosure env s (nfg_m st) = (e, s', g) \<and>
         removeLastLoopClosure env st w =
           returning e (optimize env (st\<lparr>nfg_m := g, outlier_removal_m := Some s'\<rparr>) w))) \<and>
   (outlier_removal_m st = None \<longrightarrow>
      (\<forall>g f. nfg_m st = g @ [f] \<longrightarrow>
         removeLastLoopClosure_id env prefix_1 prefix_2 st w =
           returning (Some f) (optimize env (st\<lparr>nfg_m := g\<rparr>) w) \<and>
         removeLastLoopClosure env st w =
           returning (Some f) (optimize env (st\<lparr>nfg_m := g\<rparr>) w)) \<and>
      (nfg_m st = [] \<longrightarrow>
         removeLastLoopClosure_id env prefix_1 prefix_2 st w =
           returning None (optimize env st w) \<and>
         removeLastLoopClosure env st w = returning None (optimize env st w))) \<and>
   (supported (solver_type_m st) \<longrightarrow>
      fst (removeLastLoopClosure_id env prefix_1 prefix_2 st w) =
        Inr (fst (detach_last_id env prefix_1 prefix_2 st),
             (snd (detach_last_id env prefix_1 prefix_2 st))
               \<lparr>values_m :=
                  optimizer_result env (snd (detach_last_id env prefix_1 prefix_2 st))\<rparr>) \<and>
      optimizer_runs (snd (removeLastLoopClosure_id env prefix_1 prefix_2 st w)) =
        optimizer_runs w @ [optimizer_call (snd (detach_last_id env prefix_1 prefix_2 st))] \<and>
      fst (removeLastLoopClosure env st w) =
        Inr (fst (detach_last env st),
             (snd (detach_last env st))
               \<lparr>values_m := optimizer_result env (snd (detach_last env st))\<rparr>) \<and>
      optimizer_runs (snd (removeLastLoopClosure env st w)) =
        optimizer_runs w @ [optimizer_call (snd (detach_last env st))])"
proof -
  have A: "\<forall>s. outlier_removal_m st = Some s \<longrightarrow>
      (\<exists>e s' g.
         or_removeLastLoopClosure_id env s (prefix_1, prefix_2) (nfg_m st) = (e, s', g) \<and>
         removeLastLoopClosure_id env prefix_1 prefix_2 st w =
           returning e (optimize env (st\<lparr>nfg_m := g, outlier_removal_m := Some s'\<rparr>) w)) \<and>
      (\<exists>e s' g.
         or_removeLastLoopClosure env s (nfg_m st) = (e, s', g) \<and>
         removeLastLoopClosure env st w =
           returning e (optimize env (st\<lparr>nfg_m := g, outlier_removal_m := Some s'\<rparr>) w))"
    by (auto simp: removeLastLoopClosure_id_def removeLastLoopClosure_def detach_last_id_def
        detach_last_def Let_def split: prod.splits)
  have B: "outlier_removal_m st = None \<longrightarrow>
      (\<forall>g f. nfg_m st = g @ [f] \<longrightarrow>
         removeLastLoopClosure_id env prefix_1 prefix_2 st w =
           returning (Some f) (optimize env (st\<lparr>nfg_m := g\<rparr>) w) \<and>
         removeLastLoopClosure env st w =
           returning (Some f) (optimize env (st\<lparr>nfg_m := g\<rparr>) w)) \<and>
      (nfg_m st = [] \<longrightarrow>
         removeLastLoopClosure_id env prefix_1 prefix_2 st w =
           returning None (optimize env st w) \<and>
         removeLastLoopClosure env st w = returning None (optimize env st w))"
    by (simp add: removeLastLoopClosure_id_def removeLastLoopClosure_def detach_last_id_def
        detach_last_def Let_def removeLastFactor_snoc removeLastFactor_empty)
  have C: "supported (solver_type_m st) \<longrightarrow>
      fst (removeLastLoopClosure_id env prefix_1 prefix_2 st w) =
        Inr (fst (detach_last_id env prefix_1 prefix_2 st),
             (snd (detach_last_id env prefix_1 prefix_2 st))
               \<lparr>values_m :=
                  optimizer_result env (snd (detach_last_id env prefix_1 prefix_2 st))\<rparr>) \<and>
      optimizer_runs (snd (removeLastLoopClosure_id env prefix_1 prefix_2 st w)) =
        optimizer_runs w @ [optimizer_call (snd (detach_last_id env prefix_1 prefix_2 st))] \<and>
      fst (removeLastLoopClosure env st w) =
        Inr (fst (detach_last env st),
             (snd (detach_last env st))
               \<lparr>values_m := optimizer_result env (snd (detach_last env st))\<rparr>) \<and>
      optimizer_runs (snd (removeLastLoopClosure env st w)) =
        optimizer_runs w @ [optimizer_call (snd (detach_last env st))]"
    by (simp add: removeLastLoopClosure_unfold returning_optimize detach_frame)
  from A B C show ?thesis by (intro conjI)
qed

text \<open>C6\<close>

theorem removeLastLoopClosure_delegates_or_pops_witness:
  "outlier_removal_m demo_plain = None \<and> nfg_m demo_plain = [] \<and>
   supported (solver_type_m demo_plain) \<and>
   fst (removeLastLoopClosure demo_collaborators demo_plain demo_world) =
     Inr (None, demo_plain\<lparr>values_m := optimizer_result demo_collaborators demo_plain\<rparr>) \<and>
   nfg_m (demo_plain\<lparr>nfg_m := [4, 5]\<rparr>) = [4] @ [5] \<and>
   fst (removeLastLoopClosure_id demo_collaborators CHR ''a'' CHR ''b''
          (demo_plain\<lparr>nfg_m := [4, 5]\<rparr>) demo_world) =
     Inr (Some 5, demo_plain\<lparr>nfg_m := [4],
            values_m := optimizer_result demo_collaborators (demo_plain\<lparr>nfg_m := [4]\<rparr>)\<rparr>) \<and>
   outlier_removal_m (snd (admission demo_collaborators [7, 9] Map.empty demo_robust)) \<noteq> None \<and>
   (\<exists>st'. fst (removeLastLoopClosure demo_collaborators
                 (snd (admission demo_collaborators [7, 9] Map.empty demo_robust))
                 demo_world) = Inr (Some 9, st') \<and> nfg_m st' = [7])"
proof -
  let ?two = "demo_plain\<lparr>nfg_m := [4, 5]\<rparr>"
  let ?rob = "snd (admission demo_collaborators [7, 9] Map.empty demo_robust)"
  note E = removeLastLoopClosure_delegates_or_pops [where env = demo_collaborators
      and st = demo_plain and w = demo_world and ?prefix_1.0 = "CHR ''a''" and ?prefix_2.0 = "CHR ''b''"]
  note T = removeLastLoopClosure_delegates_or_pops [where env = demo_collaborators
      and st = ?two and w = demo_world and ?prefix_1.0 = "CHR ''a''" and ?prefix_2.0 = "CHR ''b''"]
  note R = removeLastLoopClosure_delegates_or_pops [where env = demo_collaborators
      and st = ?rob and w = demo_world and ?prefix_1.0 = "CHR ''a''" and ?prefix_2.0 = "CHR ''b''"]
  have a: "outlier_removal_m demo_plain = None" "nfg_m demo_plain = []"
    "supported (solver_type_m demo_plain)"
    by (simp_all add: demo_plain_def GenericSolver_def supported_def)
  from E a have "removeLastLoopClosure demo_collaborators demo_plain demo_world =
      returning None (optimize demo_collaborators demo_plain demo_world)"
    by blast
  with a(3) have b: "fst (removeLastLoopClosure demo_collaborators demo_plain demo_world) =
      Inr (None, demo_plain\<lparr>values_m := optimizer_result demo_collaborators demo_plain\<rparr>)"
    by (simp add: returning_optimize)
  have c: "outlier_removal_m ?two = None" "nfg_m ?two = [4] @ [5]"
    "supported (solver_type_m (?two\<lparr>nfg_m := [4]\<rparr>))"
    by (simp_all add: demo_plain_def GenericSolver_def supported_def)
  from T c(1,2) have "removeLastLoopClosure_id demo_collaborators CHR ''a'' CHR ''b'' ?two
      demo_world = returning (Some 5) (optimize demo_collaborators (?two\<lparr>nfg_m := [4]\<rparr>) demo_world)"
    by blast
  with c(3) have d: "fst (removeLastLoopClosure_id demo_collaborators CHR ''a'' CHR ''b'' ?two
      demo_world) = Inr (Some 5, demo_plain\<lparr>nfg_m := [4],
            values_m := optimizer_result demo_collaborators (demo_plain\<lparr>nfg_m := [4]\<rparr>)\<rparr>)"
    by (simp add: returning_optimize)
  have r: "?rob = demo_robust\<lparr>nfg_m := [7, 9], values_m := Map.empty,
      outlier_removal_m := Some ((or_setQuiet (make_strategy demo_collaborators Pcm3D 3 3 ''l''))
        \<lparr>bookkeeping := [7, 9]\<rparr>)\<rparr>"
    by (simp add: admission_def demo_robust_def demo_collaborators_def GenericSolver_def
        make_strategy_def or_setQuiet_def)
  have e: "outlier_removal_m ?rob \<noteq> None"
    by (simp add: r)
  have f: "supported (solver_type_m ?rob)"
    by (simp add: admission_frame demo_robust_def GenericSolver_def supported_def)
  from R f have g: "fst (removeLastLoopClosure demo_collaborators ?rob demo_world) =
      Inr (fst (detach_last demo_collaborators ?rob),
           (snd (detach_last demo_collaborators ?rob))
             \<lparr>values_m := optimizer_result demo_collaborators (snd (detach_last demo_collaborators ?rob))\<rparr>)"
    by blast
  have h: "fst (detach_last demo_collaborators ?rob) = Some 9"
    "nfg_m (snd (detach_last demo_collaborators ?rob)) = [7]"
    unfolding r
    by (simp_all add: detach_last_def demo_collaborators_def or_setQuiet_def make_strategy_def)
  from g h have i: "\<exists>st'. fst (removeLastLoopClosure demo_collaborators ?rob demo_world) =
      Inr (Some 9, st') \<and> nfg_m st' = [7]"
    by simp
  from a b c(2) d e i show ?thesis
    by (intro conjI)
qed

text \<open>
  Claim C6. The removal step of \<^verbatim>\<open>removeLastLoopClosure\<close> (everything before the call
  of \<^verbatim>\<open>optimize()\<close>) leaves the value assignment as it was, with and without a
  strategy and in both forms: the strategy is handed \<^verbatim>\<open>nfg_\<close> only, and
  \<^verbatim>\<open>removeLastFactor\<close> touches the factors only. The operation is this step followed by
  \<^verbatim>\<open>optimize()\<close>, and what \<^verbatim>\<open>optimize()\<close> hands to the backend, and so the values
  the backend computes, depend on the graph left by the removal and on the values, solver
  mode and verbosity from before the call only.
\<close>

theorem removal_step_keeps_values:
  "values_m (snd (detach_last_id env prefix_1 prefix_2 st)) = values_m st \<and>
   values_m (snd (detach_last env st)) = values_m st \<and>
   removeLastLoopClosure_id env prefix_1 prefix_2 st w =
     returning (fst (detach_last_id env prefix_1 prefix_2 st))
       (optimize env (snd (detach_last_id env prefix_1 prefix_2 st)) w) \<and>
   removeLastLoopClosure env st w =
     returning (fst (detach_last env st)) (optimize env (snd (detach_last env st)) w) \<and>
   optimizer_call (snd (detach_last_id env prefix_1 prefix_2 st)) =
     optimizer_call (st\<lparr>nfg_m := nfg_m (snd (detach_last_id env prefix_1 prefix_2 st))\<rparr>) \<and>
   optimizer_call (snd (detach_last env st)) =
     optimizer_call (st\<lparr>nfg_m := nfg_m (snd (detach_last env st))\<rparr>) \<and>
   optimizer_result env (snd (detach_last_id env prefix_1 prefix_2 st)) =
     optimizer_result env (st\<lparr>nfg_m := nfg_m (snd (detach_last_id env prefix_1 prefix_2 st))\<rparr>) \<and>
   optimizer_result env (snd (detach_last env st)) =
     optimizer_result env (st\<lparr>nfg_m := nfg_m (snd (detach_last env st))\<rparr>)"
proof -
  let ?scoped = "snd (detach_last_id env prefix_1 prefix_2 st)"
  let ?whole = "snd (detach_last env st)"
  have kept: "values_m ?scoped = values_m st" "values_m ?whole = values_m st"
    by (rule detach_frame)+
  have mode: "solver_type_m ?scoped = solver_type_m st" "solver_type_m ?whole = solver_type_m st"
    "debug_m ?scoped = debug_m st" "debug_m ?whole = debug_m st"
    by (rule detach_frame)+
  have "then": "removeLastLoopClosure_id env prefix_1 prefix_2 st w =
      returning (fst (detach_last_id env prefix_1 prefix_2 st)) (optimize env ?scoped w)"
    "removeLastLoopClosure env st w = returning (fst (detach_last env st)) (optimize env ?whole w)"
    by (rule removeLastLoopClosure_unfold)+
  have call: "optimizer_call ?scoped = optimizer_call (st\<lparr>nfg_m := nfg_m ?scoped\<rparr>)"
    "optimizer_call ?whole = optimizer_call (st\<lparr>nfg_m := nfg_m ?whole\<rparr>)"
    by (simp_all add: optimizer_call_def kept mode)
  have result: "optimizer_result env ?scoped = optimizer_result env (st\<lparr>nfg_m := nfg_m ?scoped\<rparr>)"
    "optimizer_result env ?whole = optimizer_result env (st\<lparr>nfg_m := nfg_m ?whole\<rparr>)"
    by (simp_all add: optimizer_result_def kept mode)
  from kept "then" call result show ?thesis
    by (intro conjI)
qed

text \<open>
  Claim C5. With no strategy configured, \<^verbatim>\<open>ignorePrefix\<close> and \<^verbatim>\<open>revivePrefix\<close> emit
  their warning and then call \<^verbatim>\<open>optimize()\<close> on the unchanged solver, and
  \<^verbatim>\<open>getIgnoredPrefixes\<close> returns the empty vector, leaves the solver as it is and emits
  the warning \<^verbatim>\<open>revivePrefix\<close> emits. The warning is the first thing either operation
  adds to the console. On a supported solver mode both operations return normally, the
  factors untouched and the values the backend's, after exactly one run of the backend.
\<close>

theorem prefix_operations_without_strategy:
  "outlier_removal_m st = None \<longrightarrow>
     ignorePrefix env prefix st w =
       optimize env st
         (log_at WARNING
            '''ignorePrefix' currently not implemented for no outlier rejection case'' w) \<and>
     revivePrefix env prefix st w =
       optimize env st
         (log_at WARNING
            ('''revivePrefix' and 'ignorePrefix' currently not implemented for no '' @
             ''outlier rejection case'') w) \<and>
     getIgnoredPrefixes env st w =
       (([], st),
        log_at WARNING
          ('''revivePrefix' and 'ignorePrefix' currently not implemented for no '' @
           ''outlier rejection case'') w) \<and>
     (\<exists>extra. console (snd (ignorePrefix env prefix st w)) =
        console w @
          (WARNING, '''ignorePrefix' currently not implemented for no outlier rejection case'')
            # extra) \<and>
     (\<exists>extra. console (snd (revivePrefix env prefix st w)) =
        console w @
          (WARNING, '''revivePrefix' and 'ignorePrefix' currently not implemented for no '' @
                    ''outlier rejection case'') # extra) \<and>
     (supported (solver_type_m st) \<longrightarrow>
        fst (ignorePrefix env prefix st w) = Inr (st\<lparr>values_m := optimizer_result env st\<rparr>) \<and>
        fst (revivePrefix env prefix st w) = Inr (st\<lparr>values_m := optimizer_result env st\<rparr>) \<and>
        optimizer_runs (snd (ignorePrefix env prefix st w)) =
          optimizer_runs w @ [optimizer_call st] \<and>
        optimizer_runs (snd (revivePrefix env prefix st w)) =
          optimizer_runs w @ [optimizer_call st])"
proof
  assume n: "outlier_removal_m st = None"
  let ?mi = "'''ignorePrefix' currently not implemented for no outlier rejection case''"
  let ?mr = "'''revivePrefix' and 'ignorePrefix' currently not implemented for no '' @
             ''outlier rejection case''"
  have i: "ignorePrefix env prefix st w = optimize env st (log_at WARNING ?mi w)"
    using n by (simp add: ignorePrefix_def)
  have r: "revivePrefix env prefix st w = optimize env st (log_at WARNING ?mr w)"
    using n by (simp add: revivePrefix_def)
  have g: "getIgnoredPrefixes env st w = (([], st), log_at WARNING ?mr w)"
    using n by (simp add: getIgnoredPrefixes_def)
  have ci: "\<exists>extra. console (snd (ignorePrefix env prefix st w)) =
      console w @ (WARNING, ?mi) # extra"
    using optimize_console [of env st "log_at WARNING ?mi w"]
    unfolding i by (simp add: log_at_def)
  have cr: "\<exists>extra. console (snd (revivePrefix env prefix st w)) =
      console w @ (WARNING, ?mr) # extra"
    using optimize_console [of env st "log_at WARNING ?mr w"]
    unfolding r by (simp add: log_at_def)
  have s: "supported (solver_type_m st) \<longrightarrow>
        fst (ignorePrefix env prefix st w) = Inr (st\<lparr>values_m := optimizer_result env st\<rparr>) \<and>
        fst (revivePrefix env prefix st w) = Inr (st\<lparr>values_m := optimizer_result env st\<rparr>) \<and>
        optimizer_runs (snd (ignorePrefix env prefix st w)) =
          optimizer_runs w @ [optimizer_call st] \<and>
        optimizer_runs (snd (revivePrefix env prefix st w)) =
          optimizer_runs w @ [optimizer_call st]"
    unfolding i r by (simp add: optimize_fst optimize_runs log_at_def)
  from i r g ci cr s show "ignorePrefix env prefix st w = optimize env st (log_at WARNING ?mi w) \<and>
     revivePrefix env prefix st w = optimize env st (log_at WARNING ?mr w) \<and>
     getIgnoredPrefixes env st w = (([], st), log_at WARNING ?mr w) \<and>
     (\<exists>extra. console (snd (ignorePrefix env prefix st w)) =
        console w @ (WARNING, ?mi) # extra) \<and>
     (\<exists>extra. console (snd (revivePrefix env prefix st w)) =
        console w @ (WARNING, ?mr) # extra) \<and>
     (supported (solver_type_m st) \<longrightarrow>
        fst (ignorePrefix env prefix st w) = Inr (st\<lparr>values_m := optimizer_result env st\<rparr>) \<and>
        fst (revivePrefix env prefix st w) = Inr (st\<lparr>values_m := optimizer_result env st\<rparr>) \<and>
        optimizer_runs (snd (ignorePrefix env prefix st w)) =
          optimizer_runs w @ [optimizer_call st] \<and>
        optimizer_runs (snd (revivePrefix env prefix st w)) =
          optimizer_runs w @ [optimizer_call st])"
    by (intro conjI)
qed

theorem prefix_operations_without_strategy_witness:
  "outlier_removal_m demo_plain = None \<and> supported (solver_type_m demo_plain) \<and>
   fst (getIgnoredPrefixes demo_collaborators demo_plain demo_world) = ([], demo_plain) \<and>
   console (snd (getIgnoredPrefixes demo_collaborators demo_plain demo_world)) =
     [(WARNING, '''revivePrefix' and 'ignorePrefix' currently not implemented for no '' @
                ''outlier rejection case'')] \<and>
   fst (ignorePrefix demo_collaborators CHR ''a'' demo_plain demo_world) =
     Inr (demo_plain\<lparr>values_m := optimizer_result demo_collaborators demo_plain\<rparr>) \<and>
   optimizer_runs (snd (ignorePrefix demo_collaborators CHR ''a'' demo_plain demo_world)) =
     [optimizer_call demo_plain] \<and>
   fst (revivePrefix demo_collaborators CHR ''a'' demo_plain demo_world) =
     Inr (demo_plain\<lparr>values_m := optimizer_result demo_collaborators demo_plain\<rparr>) \<and>
   optimizer_runs (snd (revivePrefix demo_collaborators CHR ''a'' demo_plain demo_world)) =
     [optimizer_call demo_plain]"
proof -
  note T = prefix_operations_without_strategy [where env = demo_collaborators
      and st = demo_plain and w = demo_world and prefix = "CHR ''a''"]
  have a: "outlier_removal_m demo_plain = None"
    by (simp add: demo_plain_def GenericSolver_def)
  have b: "supported (solver_type_m demo_plain)"
    by (simp add: demo_plain_def GenericSolver_def supported_def)
  have w0: "optimizer_runs demo_world = []" "console demo_world = []"
    by (simp_all add: demo_world_def)
  from T a have g: "getIgnoredPrefixes demo_collaborators demo_plain demo_world =
      (([], demo_plain),
       log_at WARNING
         ('''revivePrefix' and 'ignorePrefix' currently not implemented for no '' @
          ''outlier rejection case'') demo_world)"
    by blast
  from T a b have r:
    "fst (ignorePrefix demo_collaborators CHR ''a'' demo_plain demo_world) =
       Inr (demo_plain\<lparr>values_m := optimizer_result demo_collaborators demo_plain\<rparr>)"
    "fst (revivePrefix demo_collaborators CHR ''a'' demo_plain demo_world) =
       Inr (demo_plain\<lparr>values_m := optimizer_result demo_collaborators demo_plain\<rparr>)"
    "optimizer_runs (snd (ignorePrefix demo_collaborators CHR ''a'' demo_plain demo_world)) =
       optimizer_runs demo_world @ [optimizer_call demo_plain]"
    "optimizer_runs (snd (revivePrefix demo_collaborators CHR ''a'' demo_plain demo_world)) =
       optimizer_runs demo_world @ [optimizer_call demo_plain]"
    by blast+
  from a b g r w0 show ?thesis
    by (simp add: log_at_def)
qed

text \<open>
  Claim C10. \<^verbatim>\<open>getIgnoredPrefixes\<close>, with or without a strategy, returns with the
  factors and the values of the solver unchanged, runs no optimizer and writes no file;
  \<^verbatim>\<open>ignorePrefix\<close> and \<^verbatim>\<open>revivePrefix\<close>, with or without a strategy, run the backend
  exactly once on a supported solver mode.
\<close>

theorem getIgnoredPrefixes_is_a_query:
  "nfg_m (snd (fst (getIgnoredPrefixes env st w))) = nfg_m st \<and>
   values_m (snd (fst (getIgnoredPrefixes env st w))) = values_m st \<and>
   optimizer_runs (snd (getIgnoredPrefixes env st w)) = optimizer_runs w \<and>
   files (snd (getIgnoredPrefixes env st w)) = files w \<and>
   (supported (solver_type_m st) \<longrightarrow>
      length (optimizer_runs (snd (ignorePrefix env prefix st w))) =
        Suc (length (optimizer_runs w)) \<and>
      length (optimizer_runs (snd (revivePrefix env prefix st w))) =
        Suc (length (optimizer_runs w)))"
proof -
  have q: "nfg_m (snd (fst (getIgnoredPrefixes env st w))) = nfg_m st \<and>
      values_m (snd (fst (getIgnoredPrefixes env st w))) = values_m st \<and>
      optimizer_runs (snd (getIgnoredPrefixes env st w)) = optimizer_runs w \<and>
      files (snd (getIgnoredPrefixes env st w)) = files w"
    by (simp add: getIgnoredPrefixes_def log_at_def split: option.splits prod.splits)
  have i: "supported (solver_type_m st) \<Longrightarrow>
      length (optimizer_runs (snd (ignorePrefix env prefix st w))) =
        Suc (length (optimizer_runs w))"
    by (simp add: ignorePrefix_def optimize_runs log_at_def split: option.splits prod.splits)
  have r: "supported (solver_type_m st) \<Longrightarrow>
      length (optimizer_runs (snd (revivePrefix env prefix st w))) =
        Suc (length (optimizer_runs w))"
    by (simp add: revivePrefix_def optimize_runs log_at_def split: option.splits prod.splits)
  from q i r show ?thesis by blast
qed

theorem getIgnoredPrefixes_is_a_query_witness:
  "supported (solver_type_m demo_robust) \<and>
   nfg_m (snd (fst (getIgnoredPrefixes demo_collaborators demo_robust demo_world))) = [] \<and>
   optimizer_runs (snd (getIgnoredPrefixes demo_collaborators demo_robust demo_world)) = [] \<and>
   length (optimizer_runs (snd (ignorePrefix demo_collaborators CHR ''a'' demo_robust
     demo_world))) = 1 \<and>
   length (optimizer_runs (snd (revivePrefix demo_collaborators CHR ''a'' demo_robust
     demo_world))) = 1"
proof -
  note T = getIgnoredPrefixes_is_a_query [where env = demo_collaborators
      and st = demo_robust and w = demo_world and prefix = "CHR ''a''"]
  have b: "supported (solver_type_m demo_robust)"
    by (simp add: demo_robust_def GenericSolver_def supported_def)
  have w0: "optimizer_runs demo_world = []" "nfg_m demo_robust = []"
    by (simp_all add: demo_world_def demo_robust_def GenericSolver_def)
  from T b w0 show ?thesis
    by simp
qed

text \<open>
  Claim C9, which the code does not meet. For an unrecognized verbosity the constructor
  does complete and does emit the warning "Unrecognized verbosity. Automatically setting
  to UPDATE. ", but it does nothing else: the \<^verbatim>\<open>default\<close> branch has no call of the
  strategy's \<^verbatim>\<open>setQuiet()\<close>, which the \<^verbatim>\<open>UPDATE\<close> branch makes. With a strategy
  configured (here \<^verbatim>\<open>PCM2D\<close>) the solver it returns is not the one verbosity
  \<^verbatim>\<open>UPDATE\<close> gives: its strategy is not quiet.
\<close>

theorem unrecognized_verbosity_is_not_UPDATE:
  "\<exists>su sd.
     RobustSolver env (params\<lparr>outlierRemovalMethod := PCM2D, verbosity := Verbosity_unlisted\<rparr>) w =
       (Inr su,
        log_at WARNING ''Unrecognized verbosity. Automatically setting to UPDATE. '' w) \<and>
     RobustSolver env (params\<lparr>outlierRemovalMethod := PCM2D, verbosity := UPDATE\<rparr>) w =
       (Inr sd, w) \<and>
     map_option quiet (outlier_removal_m su) = Some False \<and>
     map_option quiet (outlier_removal_m sd) = Some True \<and>
     sd = su\<lparr>outlier_removal_m := map_option or_setQuiet (outlier_removal_m su)\<rparr> \<and>
     debug_m su \<and> debug_m sd"
  by (simp add: RobustSolver_def select_strategy_def GenericSolver_def make_strategy_def
      or_setQuiet_def)

text \<open>
  Claim C7. Constructing the solver with an outlier-removal method that is none of
  \<^verbatim>\<open>NONE\<close>, \<^verbatim>\<open>PCM2D\<close>, \<^verbatim>\<open>PCM3D\<close>, \<^verbatim>\<open>PCM_Simple2D\<close>, \<^verbatim>\<open>PCM_Simple3D\<close>
  terminates the process, so the constructor returns no solver, and what it adds to the
  console is the warning "Undefined outlier removal method"; \<^verbatim>\<open>optimize()\<close> on a solver
  mode that is neither Gauss-Newton nor Levenberg-Marquardt terminates the process, adds
  the warning "Unsupported Solver" to the console and runs no backend; with method
  \<^verbatim>\<open>NONE\<close> the constructor returns a solver that has no strategy. Whenever the
  constructor returns a solver, the method was one of the five, and the solver has no
  strategy exactly when the method was \<^verbatim>\<open>NONE\<close>.
\<close>

theorem fatal_configuration_errors:
  "(outlierRemovalMethod params \<notin> {NONE, PCM2D, PCM3D, PCM_Simple2D, PCM_Simple3D} \<longrightarrow>
      RobustSolver env params w =
        (Inl Exit_failure, log_at WARNING ''Undefined outlier removal method'' w) \<and>
      console (snd (RobustSolver env params w)) =
        console w @ [(WARNING, ''Undefined outlier removal method'')]) \<and>
   (solver_type_m st \<notin> {GN, LM} \<longrightarrow>
      optimize env st w = (Inl Exit_failure, log_at WARNING ''Unsupported Solver'' w) \<and>
      console (snd (optimize env st w)) = console w @ [(WARNING, ''Unsupported Solver'')] \<and>
      optimizer_runs (snd (optimize env st w)) = optimizer_runs w) \<and>
   (outlierRemovalMethod params = NONE \<longrightarrow>
      (\<exists>st'. fst (RobustSolver env params w) = Inr st' \<and> outlier_removal_m st' = None)) \<and>
   (\<forall>st'. fst (RobustSolver env params w) = Inr st' \<longrightarrow>
      outlierRemovalMethod params \<in> {NONE, PCM2D, PCM3D, PCM_Simple2D, PCM_Simple3D} \<and>
      (outlier_removal_m st' = None) = (outlierRemovalMethod params = NONE))"
proof (intro conjI impI allI)
  assume "outlierRemovalMethod params \<notin> {NONE, PCM2D, PCM3D, PCM_Simple2D, PCM_Simple3D}"
  then have "outlierRemovalMethod params = OutlierRemovalMethod_unlisted"
    by (cases "outlierRemovalMethod params") simp_all
  then show r: "RobustSolver env params w =
      (Inl Exit_failure, log_at WARNING ''Undefined outlier removal method'' w)"
    by (simp add: RobustSolver_def select_strategy_def)
  show "console (snd (RobustSolver env params w)) =
      console w @ [(WARNING, ''Undefined outlier removal method'')]"
    unfolding r by (simp add: log_at_def)
next
  assume "solver_type_m st \<notin> {GN, LM}"
  then have u: "\<not> supported (solver_type_m st)"
    by (auto simp: supported_def)
  show o: "optimize env st w = (Inl Exit_failure, log_at WARNING ''Unsupported Solver'' w)"
    by (rule optimize_unsupported [OF u])
  show "console (snd (optimize env st w)) = console w @ [(WARNING, ''Unsupported Solver'')]"
    unfolding o by (simp add: log_at_def)
  show "optimizer_runs (snd (optimize env st w)) = optimizer_runs w"
    unfolding o by (simp add: log_at_def)
next
  assume "outlierRemovalMethod params = NONE"
  then show "\<exists>st'. fst (RobustSolver env params w) = Inr st' \<and> outlier_removal_m st' = None"
    by (cases "verbosity params")
      (simp_all add: RobustSolver_def select_strategy_def GenericSolver_def setQuiet_def)
next
  fix st'
  assume r: "fst (RobustSolver env params w) = Inr st'"
  then show "outlierRemovalMethod params \<in> {NONE, PCM2D, PCM3D, PCM_Simple2D, PCM_Simple3D}"
    by (cases "outlierRemovalMethod params")
      (simp_all add: RobustSolver_def select_strategy_def)
  from r show "(outlier_removal_m st' = None) = (outlierRemovalMethod params = NONE)"
    by (cases "outlierRemovalMethod params"; cases "verbosity params")
      (auto simp: RobustSolver_def select_strategy_def GenericSolver_def setQuiet_def)
qed

theorem fatal_configuration_errors_witness:
  "outlierRemovalMethod (demo_params OutlierRemovalMethod_unlisted UPDATE)
     \<notin> {NONE, PCM2D, PCM3D, PCM_Simple2D, PCM_Simple3D} \<and>
   fst (RobustSolver demo_collaborators (demo_params OutlierRemovalMethod_unlisted UPDATE)
     demo_world) = Inl Exit_failure \<and>
   console (snd (RobustSolver demo_collaborators
     (demo_params OutlierRemovalMethod_unlisted UPDATE) demo_world)) =
     [(WARNING, ''Undefined outlier removal method'')] \<and>
   solver_type_m (demo_plain\<lparr>solver_type_m := Solver_unlisted\<rparr>) \<notin> {GN, LM} \<and>
   fst (optimize demo_collaborators (demo_plain\<lparr>solver_type_m := Solver_unlisted\<rparr>) demo_world) =
     Inl Exit_failure \<and>
   console (snd (optimize demo_collaborators (demo_plain\<lparr>solver_type_m := Solver_unlisted\<rparr>)
     demo_world)) = [(WARNING, ''Unsupported Solver'')] \<and>
   optimizer_runs (snd (optimize demo_collaborators
     (demo_plain\<lparr>solver_type_m := Solver_unlisted\<rparr>) demo_world)) = [] \<and>
   outlierRemovalMethod (demo_params NONE QUIET) = NONE \<and>
   (\<exists>st'. fst (RobustSolver demo_collaborators (demo_params NONE QUIET) demo_world) = Inr st' \<and>
      outlier_removal_m st' = None)"
proof -
  let ?bad = "demo_params OutlierRemovalMethod_unlisted UPDATE"
  let ?st = "demo_plain\<lparr>solver_type_m := Solver_unlisted\<rparr>"
  note T = fatal_configuration_errors [where params = ?bad and env = demo_collaborators
      and w = demo_world and st = ?st]
  note N = fatal_configuration_errors [where params = "demo_params NONE QUIET"
      and env = demo_collaborators and w = demo_world and st = demo_plain]
  have a: "outlierRemovalMethod ?bad \<notin> {NONE, PCM2D, PCM3D, PCM_Simple2D, PCM_Simple3D}"
    by (simp add: demo_params_def)
  have b: "solver_type_m ?st \<notin> {GN, LM}"
    by simp
  have c: "outlierRemovalMethod (demo_params NONE QUIET) = NONE"
    by (simp add: demo_params_def)
  have w0: "console demo_world = []" "optimizer_runs demo_world = []"
    by (simp_all add: demo_world_def)
  from T [THEN conjunct1, rule_format, OF a]
  have r: "RobustSolver demo_collaborators ?bad demo_world =
        (Inl Exit_failure, log_at WARNING ''Undefined outlier removal method'' demo_world)"
    and rc: "console (snd (RobustSolver demo_collaborators ?bad demo_world)) =
        console demo_world @ [(WARNING, ''Undefined outlier removal method'')]"
    by (rule conjunct1, rule conjunct2)
  from T [THEN conjunct2, THEN conjunct1, rule_format, OF b]
  have o: "optimize demo_collaborators ?st demo_world =
        (Inl Exit_failure, log_at WARNING ''Unsupported Solver'' demo_world)"
    and oc: "console (snd (optimize demo_collaborators ?st demo_world)) =
        console demo_world @ [(WARNING, ''Unsupported Solver'')]"
    and orun: "optimizer_runs (snd (optimize demo_collaborators ?st demo_world)) =
        optimizer_runs demo_world"
    by (rule conjunct1, rule conjunct2 [THEN conjunct1], rule conjunct2 [THEN conjunct2])
  from N [THEN conjunct2, THEN conjunct2, THEN conjunct1, rule_format, OF c]
  have n: "\<exists>st'. fst (RobustSolver demo_collaborators (demo_params NONE QUIET) demo_world) =
      Inr st' \<and> outlier_removal_m st' = None" .
  have r': "fst (RobustSolver demo_collaborators ?bad demo_world) = Inl Exit_failure"
    by (simp add: r)
  have o': "fst (optimize demo_collaborators ?st demo_world) = Inl Exit_failure"
    by (simp add: o)
  from rc oc orun w0 have rc': "console (snd (RobustSolver demo_collaborators ?bad demo_world)) =
        [(WARNING, ''Undefined outlier removal method'')]"
    and oc': "console (snd (optimize demo_collaborators ?st demo_world)) =
        [(WARNING, ''Unsupported Solver'')]"
    and orun': "optimizer_runs (snd (optimize demo_collaborators ?st demo_world)) = []"
    by simp_all
  from a r' rc' b o' oc' orun' c n show ?thesis
    by (intro conjI)
qed




end
